theory Spec2Isabelle
  imports Complex_Main
begin

section \<open>PSIAnalyzer: a model of \<^verbatim>\<open>src/psi.py\<close>\<close>

text \<open>
  The class \<^verbatim>\<open>PSIAnalyzer\<close> computes the population stability index of an
  \<^emph>\<open>actual\<close> dataset against an \<^emph>\<open>expected\<close> one. The object is a record, each method
  a function from the object to an error or the updated object.

  Numbers. The source computes in IEEE double precision, through Python floats and numpy.
  The model keeps the special values of that arithmetic (the two infinities and NaN,
  which numpy returns where Python itself would raise). Rounding is modelled where a
  raise of the source depends on it: in the percentile ranks
  \<^verbatim>\<open>(100 / self.group) * counter\<close> and in their division by 100, which
  \<^verbatim>\<open>np.percentile\<close> checks against the interval [0, 1]. Every other finite value is
  computed as an exact real number, and the sign of zero is not modelled. The samples of
  a dataset are finite real numbers.
\<close>

subsection \<open>Rounding to double precision\<close>

text \<open>
  The nearest integer, ties to the even one; and the nearest double (53 significant
  bits, ties to even) of a real number in the normal range. Overflow and subnormal
  numbers are not modelled: the numbers rounded here are percentile ranks.
\<close>

definition round_even :: "real \<Rightarrow> int" where
  "round_even m =
     (let f = \<lfloor>m\<rfloor>; r = m - of_int f
      in if r < 1 / 2 then f else if 1 / 2 < r then f + 1 else if even f then f else f + 1)"

definition fl :: "real \<Rightarrow> real" where
  "fl x =
     (if x = 0 then 0
      else let e = \<lfloor>log 2 \<bar>x\<bar>\<rfloor>; ulp = 2 powi (e - 52)
           in of_int (round_even (x / ulp)) * ulp)"

subsection \<open>numpy's scalars\<close>

datatype npfloat = Fin real | PInf | NInf | NaN

text \<open>
  \<^verbatim>\<open>np.sum(mask) / len(data)\<close>: a numpy integer divided by a Python integer is a
  true division in float64; a zero divisor gives NaN (for 0/0) or an infinity with a
  RuntimeWarning, never ZeroDivisionError.
\<close>

definition int_true_divide :: "nat \<Rightarrow> nat \<Rightarrow> npfloat" where
  "int_true_divide c n =
     (if n = 0 then (if c = 0 then NaN else PInf) else Fin (real c / real n))"

fun np_sub :: "npfloat \<Rightarrow> npfloat \<Rightarrow> npfloat" where
  "np_sub (Fin x) (Fin y) = Fin (x - y)"
| "np_sub NaN b = NaN"
| "np_sub a NaN = NaN"
| "np_sub PInf PInf = NaN"
| "np_sub NInf NInf = NaN"
| "np_sub PInf b = PInf"
| "np_sub NInf b = NInf"
| "np_sub (Fin x) PInf = NInf"
| "np_sub (Fin x) NInf = PInf"

fun np_add :: "npfloat \<Rightarrow> npfloat \<Rightarrow> npfloat" where
  "np_add (Fin x) (Fin y) = Fin (x + y)"
| "np_add NaN b = NaN"
| "np_add a NaN = NaN"
| "np_add PInf NInf = NaN"
| "np_add NInf PInf = NaN"
| "np_add PInf b = PInf"
| "np_add NInf b = NInf"
| "np_add (Fin x) PInf = PInf"
| "np_add (Fin x) NInf = NInf"

fun np_mul :: "npfloat \<Rightarrow> npfloat \<Rightarrow> npfloat" where
  "np_mul (Fin x) (Fin y) = Fin (x * y)"
| "np_mul NaN b = NaN"
| "np_mul a NaN = NaN"
| "np_mul (Fin x) PInf = (if x = 0 then NaN else if 0 < x then PInf else NInf)"
| "np_mul (Fin x) NInf = (if x = 0 then NaN else if 0 < x then NInf else PInf)"
| "np_mul PInf (Fin y) = (if y = 0 then NaN else if 0 < y then PInf else NInf)"
| "np_mul NInf (Fin y) = (if y = 0 then NaN else if 0 < y then NInf else PInf)"
| "np_mul PInf PInf = PInf"
| "np_mul PInf NInf = NInf"
| "np_mul NInf PInf = NInf"
| "np_mul NInf NInf = PInf"

text \<open>Float division: a zero divisor gives an infinity, or NaN for 0/0.\<close>

fun np_div :: "npfloat \<Rightarrow> npfloat \<Rightarrow> npfloat" where
  "np_div (Fin x) (Fin y) =
     (if y = 0 then (if x = 0 then NaN else if 0 < x then PInf else NInf)
      else Fin (x / y))"
| "np_div NaN b = NaN"
| "np_div a NaN = NaN"
| "np_div (Fin x) b = Fin 0"
| "np_div PInf (Fin y) = (if 0 \<le> y then PInf else NInf)"
| "np_div NInf (Fin y) = (if 0 \<le> y then NInf else PInf)"
| "np_div a b = NaN"

text \<open>\<^verbatim>\<open>np.log\<close>: minus infinity at 0, NaN below 0.\<close>

fun np_log :: "npfloat \<Rightarrow> npfloat" where
  "np_log (Fin x) = (if 0 < x then Fin (ln x) else if x = 0 then NInf else NaN)"
| "np_log PInf = PInf"
| "np_log NInf = NaN"
| "np_log NaN = NaN"

text \<open>\<^verbatim>\<open>np.sum\<close> of a list of floats; the sum of no float is 0.0.\<close>

definition np_sum :: "npfloat list \<Rightarrow> npfloat" where
  "np_sum xs = foldl np_add (Fin 0) xs"

text \<open>The comparison \<^verbatim>\<open>v >= 0\<close>, false for NaN.\<close>

fun np_nonneg :: "npfloat \<Rightarrow> bool" where
  "np_nonneg (Fin x) = (0 \<le> x)"
| "np_nonneg PInf = True"
| "np_nonneg NInf = False"
| "np_nonneg NaN = False"


subsection \<open>Errors and arguments\<close>

datatype py_error = ValueError string | IndexError | TypeError | ZeroDivisionError

text \<open>
  The constructor accepts three container types and rejects every other type; the group
  count must be of type \<^verbatim>\<open>int\<close> exactly.
\<close>

datatype container = Series "real list" | Ndarray "real list" | PyList "real list" | OtherType

datatype pyvalue = PyInt int | NotInt

fun container_values :: "container \<Rightarrow> real list" where
  "container_values (Series xs) = xs"
| "container_values (Ndarray xs) = xs"
| "container_values (PyList xs) = xs"
| "container_values OtherType = []"

subsection \<open>The object\<close>

text \<open>
  The fields of \<^verbatim>\<open>self\<close>. \<^verbatim>\<open>group\<close> is the field \<open>group_k\<close>. \<open>warned\<close> records that
  the constructor emitted its warning (group above 25); a warning does not raise.
\<close>

record psi_analyzer =
  actual :: "real list"
  expected :: "real list"
  group_k :: int
  cut_points :: "real list option"
  actual_groups :: "nat list"
  expected_groups :: "nat list"
  actual_percentages :: "npfloat list"
  expected_percentages :: "npfloat list"
  group_psi_values :: "npfloat list"
  psi :: "npfloat option"
  warned :: bool

text \<open>The object as the constructor leaves it: the two datasets, the group count and the
  empty derived state.\<close>

definition initial_object :: "real list \<Rightarrow> real list \<Rightarrow> int \<Rightarrow> psi_analyzer" where
  "initial_object acts exps g =
     \<lparr> actual = acts,
       expected = exps,
       group_k = g,
       cut_points = None,
       actual_groups = [],
       expected_groups = [],
       actual_percentages = [],
       expected_percentages = [],
       group_psi_values = [],
       psi = None,
       warned = (25 < g) \<rparr>"

text \<open>
  The constructor checks the container types and the group count, nothing else: the
  length of a dataset is not looked at.
\<close>

definition PSIAnalyzer_init :: "container \<Rightarrow> container \<Rightarrow> pyvalue \<Rightarrow> py_error + psi_analyzer" where
  "PSIAnalyzer_init actual_arg expected_arg group_arg =
     (if actual_arg = OtherType then
        Inl (ValueError ''actual must be one of these: pd.core.series.Series, np.ndarray, list'')
      else if expected_arg = OtherType then
        Inl (ValueError ''expected must be one of these: pd.core.series.Series, np.ndarray, list'')
      else case group_arg of
        NotInt \<Rightarrow> Inl (ValueError ''group must be integer'')
      | PyInt g \<Rightarrow>
          if g < 2 then Inl (ValueError ''group must be bigger or equal to 2'')
          else Inr (initial_object (container_values actual_arg) (container_values expected_arg) g))"

subsection \<open>numpy's percentile and digitize\<close>

text \<open>
  \<^verbatim>\<open>np.percentile\<close> with its default method (linear): on the sorted data of length
  \<open>n\<close>, the quantile \<open>q\<close> in [0, 1] has the virtual index \<open>(n - 1) * q\<close>; the result
  interpolates between the two order statistics around it. An index at or beyond
  \<open>n - 1\<close> reads the last element on both sides.

  The virtual index and the interpolation are exact here, where numpy rounds both to
  double precision: a cut point of the model can differ from numpy's in its last bits
  (for three or ten groups, say). The runs evaluated below use two groups, where the
  levels 0, 1/2 and 1, the indices and the interpolated values are exact in double
  precision as well. The data are real numbers: the dtype of an array, integer
  wrap-around and overflow of the samples are not modelled.
\<close>

definition linear_quantile :: "real list \<Rightarrow> real \<Rightarrow> real" where
  "linear_quantile arr q =
     (let n = length arr;
          virtual_index = (real n - 1) * q;
          above = (real n - 1 \<le> virtual_index);
          previous_index = (if above then n - 1 else nat \<lfloor>virtual_index\<rfloor>);
          next_index = (if above then n - 1 else previous_index + 1);
          gamma = virtual_index - real previous_index
      in arr ! previous_index + (arr ! next_index - arr ! previous_index) * gamma)"

text \<open>
  \<^verbatim>\<open>np.percentile(arr, qs)\<close> first divides the percentiles by 100 in double precision
  and raises a ValueError unless every quotient lies in [0, 1]; the percentile of an
  empty array then fails with an IndexError inside numpy.
\<close>

definition np_percentile :: "real list \<Rightarrow> real list \<Rightarrow> py_error + real list" where
  "np_percentile arr qs =
     (let q = map (\<lambda>p. fl (p / 100)) qs
      in if \<not> list_all (\<lambda>x. 0 \<le> x \<and> x \<le> 1) q then
           Inl (ValueError ''Percentiles must be in the range [0, 100]'')
         else if arr = [] then Inl IndexError
         else Inr (map (linear_quantile (sort arr)) q))"

text \<open>
  \<^verbatim>\<open>np.searchsorted\<close> on increasing bins: with side left the number of bins below
  \<open>x\<close>, with side right the number of bins not above \<open>x\<close>.
\<close>

definition searchsorted :: "real list \<Rightarrow> real \<Rightarrow> bool \<Rightarrow> nat" where
  "searchsorted bins x left =
     (if left then length (filter (\<lambda>b. b < x) bins)
      else length (filter (\<lambda>b. b \<le> x) bins))"

text \<open>
  \<^verbatim>\<open>np.digitize(x, bins, right)\<close>: bins must be monotonic; increasing bins are
  searched directly, decreasing bins reversed.
\<close>

definition np_digitize :: "real list \<Rightarrow> real list \<Rightarrow> bool \<Rightarrow> py_error + nat list" where
  "np_digitize xs bins right =
     (if sorted bins then Inr (map (\<lambda>x. searchsorted bins x right) xs)
      else if sorted (rev bins) then
        Inr (map (\<lambda>x. length bins - searchsorted (rev bins) x right) xs)
      else Inl (ValueError ''bins must be monotonically increasing or decreasing''))"

subsection \<open>The method \<^verbatim>\<open>group_creator\<close>\<close>

text \<open>
  The list \<^verbatim>\<open>[(100 / self.group) * counter for counter in range(self.group + 1)]\<close>:
  the quotient of two integers is rounded to a double, and so is its product with the
  counter (whose own conversion to a double is exact below \<open>2^53\<close>).
\<close>

definition percentile_ranks :: "int \<Rightarrow> real list" where
  "percentile_ranks g =
     map (\<lambda>counter. fl (fl (100 / real_of_int g) * real counter)) [0..<nat (g + 1)]"

definition group_creator :: "psi_analyzer \<Rightarrow> py_error + psi_analyzer" where
  "group_creator s =
     (let sorted_actual = sort (actual s) in
      if group_k s = 0 then Inl ZeroDivisionError
      else case np_percentile sorted_actual (percentile_ranks (group_k s)) of
        Inl e \<Rightarrow> Inl e
      | Inr cps \<Rightarrow>
          (case np_digitize (actual s) cps True of
            Inl e \<Rightarrow> Inl e
          | Inr ag \<Rightarrow>
              (case np_digitize (expected s) cps True of
                Inl e \<Rightarrow> Inl e
              | Inr eg \<Rightarrow>
                  Inr (s\<lparr> cut_points := Some cps,
                          actual_groups := map Suc ag,
                          expected_groups := map Suc eg \<rparr>))))"

subsection \<open>The method \<^verbatim>\<open>_psi_calculator\<close>\<close>

text \<open>\<^verbatim>\<open>np.sum((data >= lower) & (data < upper))\<close> and its variant closed above.\<close>

definition count_half_open :: "real list \<Rightarrow> real \<Rightarrow> real \<Rightarrow> nat" where
  "count_half_open xs lower upper = length (filter (\<lambda>x. lower \<le> x \<and> x < upper) xs)"

definition count_closed :: "real list \<Rightarrow> real \<Rightarrow> real \<Rightarrow> nat" where
  "count_closed xs lower upper = length (filter (\<lambda>x. lower \<le> x \<and> x \<le> upper) xs)"

text \<open>
  One iteration of the loop over \<^verbatim>\<open>range(self.group)\<close>. Only the expected proportion
  is computed again with a closed upper bound in the last group, and only the expected
  proportion is replaced by 0.000001 when it is zero.
\<close>

definition psi_step :: "psi_analyzer \<Rightarrow> nat \<Rightarrow> py_error + psi_analyzer" where
  "psi_step s cut_index =
     (case cut_points s of
        None \<Rightarrow> Inl TypeError
      | Some cps \<Rightarrow>
          if length cps \<le> cut_index + 1 then Inl IndexError
          else
            let len_actual = length (actual s);
                len_expected = length (expected s);
                cut_lower = cps ! cut_index;
                cut_upper = cps ! (cut_index + 1);
                actual_perc =
                  int_true_divide (count_half_open (actual s) cut_lower cut_upper) len_actual;
                expected_perc0 =
                  int_true_divide (count_half_open (expected s) cut_lower cut_upper) len_expected;
                expected_perc1 =
                  (if int cut_index + 1 = group_k s
                   then int_true_divide (count_closed (expected s) cut_lower cut_upper) len_expected
                   else expected_perc0);
                expected_perc = (if expected_perc1 = Fin 0 then Fin (1 / 1000000) else expected_perc1);
                group_psi =
                  np_mul (np_sub actual_perc expected_perc)
                         (np_log (np_div actual_perc expected_perc))
            in Inr (s\<lparr> actual_percentages := actual_percentages s @ [actual_perc],
                       expected_percentages := expected_percentages s @ [expected_perc],
                       group_psi_values := group_psi_values s @ [group_psi] \<rparr>))"

fun psi_loop :: "psi_analyzer \<Rightarrow> nat list \<Rightarrow> py_error + psi_analyzer" where
  "psi_loop s [] = Inr s"
| "psi_loop s (cut_index # rest) =
     (case psi_step s cut_index of
        Inl e \<Rightarrow> Inl e
      | Inr s' \<Rightarrow> psi_loop s' rest)"

text \<open>
  The method returns \<^verbatim>\<open>(self.psi, self.group_psi_values)\<close>; the model returns the
  updated object with them.
\<close>

definition psi_calculator :: "psi_analyzer \<Rightarrow> py_error + (psi_analyzer \<times> npfloat \<times> npfloat list)" where
  "psi_calculator s =
     (case (if cut_points s = None then group_creator s else Inr s) of
        Inl e \<Rightarrow> Inl e
      | Inr s1 \<Rightarrow>
          (case psi_loop s1 [0..<nat (group_k s1)] of
            Inl e \<Rightarrow> Inl e
          | Inr s2 \<Rightarrow>
              let psi_value = np_sum (group_psi_values s2)
              in Inr (s2\<lparr> psi := Some psi_value \<rparr>, psi_value, group_psi_values s2)))"

subsection \<open>Auxiliary definitions\<close>

text \<open>
  The quantile levels \<^verbatim>\<open>np.percentile\<close> checks and uses for a group count, and the cut
  points \<^verbatim>\<open>group_creator\<close> computes from them.
\<close>

definition quantile_levels :: "int \<Rightarrow> real list" where
  "quantile_levels g = map (\<lambda>p. fl (p / 100)) (percentile_ranks g)"

definition quantile_cuts :: "real list \<Rightarrow> int \<Rightarrow> real list" where
  "quantile_cuts acts g = map (linear_quantile (sort acts)) (quantile_levels g)"

text \<open>
  What one iteration of the loop of \<^verbatim>\<open>_psi_calculator\<close> appends for the group with
  index \<open>i\<close>, as functions of the data, the group count and the cut points.
\<close>

definition actual_perc_of :: "real list \<Rightarrow> real list \<Rightarrow> nat \<Rightarrow> npfloat" where
  "actual_perc_of acts cps i =
     int_true_divide (count_half_open acts (cps ! i) (cps ! (i + 1))) (length acts)"

definition expected_perc_of :: "real list \<Rightarrow> int \<Rightarrow> real list \<Rightarrow> nat \<Rightarrow> npfloat" where
  "expected_perc_of exps g cps i =
     (let e1 = (if int i + 1 = g
                then int_true_divide (count_closed exps (cps ! i) (cps ! (i + 1))) (length exps)
                else int_true_divide (count_half_open exps (cps ! i) (cps ! (i + 1))) (length exps))
      in if e1 = Fin 0 then Fin (1 / 1000000) else e1)"

definition group_psi_of :: "npfloat \<Rightarrow> npfloat \<Rightarrow> npfloat" where
  "group_psi_of a e = np_mul (np_sub a e) (np_log (np_div a e))"

definition group_psi_at :: "real list \<Rightarrow> real list \<Rightarrow> int \<Rightarrow> real list \<Rightarrow> nat \<Rightarrow> npfloat" where
  "group_psi_at acts exps g cps i =
     group_psi_of (actual_perc_of acts cps i) (expected_perc_of exps g cps i)"

fun np_positive :: "npfloat \<Rightarrow> bool" where
  "np_positive (Fin x) = (0 < x)"
| "np_positive PInf = False"
| "np_positive NInf = False"
| "np_positive NaN = False"

section \<open>Rounding\<close>

lemma floor_log2_eq:
  assumes "2 powi e \<le> x" and "x < 2 powi (e + 1)"
  shows "\<lfloor>log 2 x\<rfloor> = e"
proof -
  have "(0::real) < 2 powi e" by simp
  then have pos: "0 < x" using assms(1) by linarith
  have "(2::real) powr real_of_int e = 2 powi e"
    and "(2::real) powr (real_of_int e + 1) = 2 powi (e + 1)"
    using powr_real_of_int' [of "2::real" e] powr_real_of_int' [of "2::real" "e + 1"] by simp_all
  then show ?thesis
    using assms floor_log_eq_powr_iff [of x 2 e] pos by simp
qed

text \<open>A number in the binade of exponent \<open>e\<close> is rounded to a multiple of \<open>2^(e - 52)\<close>.\<close>

lemma fl_binade:
  assumes "2 powi e \<le> \<bar>x\<bar>" and "\<bar>x\<bar> < 2 powi (e + 1)"
  shows "fl x = of_int (round_even (x / 2 powi (e - 52))) * 2 powi (e - 52)"
proof -
  have "(0::real) < 2 powi e" by simp
  then have "0 < \<bar>x\<bar>" using assms(1) by linarith
  then have "x \<noteq> 0" by auto
  then show ?thesis
    by (simp add: fl_def Let_def floor_log2_eq [OF assms])
qed

lemma fl_0: "fl 0 = 0"
  by (simp add: fl_def)

lemma fl_50: "fl 50 = 50"
  using fl_binade [of 5 50] by (simp add: round_even_def)

lemma fl_100: "fl 100 = 100"
  using fl_binade [of 6 100] by (simp add: round_even_def)

lemma fl_half: "fl (1 / 2) = 1 / 2"
  using fl_binade [of "-1" "1 / 2"] by (simp add: round_even_def)

lemma fl_1: "fl 1 = 1"
  using fl_binade [of 0 1] by (simp add: round_even_def)

text \<open>
  The three roundings of the last rank for eleven groups: \<open>100 / 11\<close>, its product with
  11, and the quotient of the product by 100, which is \<open>1 + 2^-52\<close>.
\<close>

lemma fl_100_div_11: "fl (100 / 11) = 5117726849284655 / 2 ^ 49"
  using fl_binade [of 3 "100 / 11"] by (simp add: round_even_def)

lemma fl_rank_11: "fl (5117726849284655 / 2 ^ 49 * 11) = 7036874417766401 / 2 ^ 46"
  using fl_binade [of 6 "5117726849284655 / 2 ^ 49 * 11"] by (simp add: round_even_def)

lemma fl_level_11: "fl (7036874417766401 / 2 ^ 46 / 100) = 4503599627370497 / 2 ^ 52"
  using fl_binade [of 0 "7036874417766401 / 2 ^ 46 / 100"] by (simp add: round_even_def)

section \<open>Cut points\<close>

lemma length_percentile_ranks: "length (percentile_ranks g) = nat (g + 1)"
  by (simp add: percentile_ranks_def)

lemma percentile_ranks_nth:
  "i < nat (g + 1) \<Longrightarrow> percentile_ranks g ! i = fl (fl (100 / real_of_int g) * real i)"
  by (simp add: percentile_ranks_def)

lemma length_quantile_levels: "length (quantile_levels g) = nat (g + 1)"
  by (simp add: quantile_levels_def length_percentile_ranks)

lemma quantile_levels_nth:
  "i < nat (g + 1) \<Longrightarrow> quantile_levels g ! i = fl (fl (fl (100 / real_of_int g) * real i) / 100)"
  by (simp add: quantile_levels_def length_percentile_ranks percentile_ranks_nth)

lemma length_quantile_cuts: "length (quantile_cuts acts g) = nat (g + 1)"
  by (simp add: quantile_cuts_def length_quantile_levels)

lemma sorted_nth_le:
  "sorted (arr::real list) \<Longrightarrow> i \<le> j \<Longrightarrow> j < length arr \<Longrightarrow> arr ! i \<le> arr ! j"
  by (simp add: sorted_iff_nth_mono)

lemma linear_quantile_below:
  assumes "(real (length arr) - 1) * q < real (length arr) - 1"
  shows "linear_quantile arr q =
           arr ! nat \<lfloor>(real (length arr) - 1) * q\<rfloor> +
           (arr ! (nat \<lfloor>(real (length arr) - 1) * q\<rfloor> + 1) - arr ! nat \<lfloor>(real (length arr) - 1) * q\<rfloor>) *
           ((real (length arr) - 1) * q - real (nat \<lfloor>(real (length arr) - 1) * q\<rfloor>))"
  using assms by (simp add: linear_quantile_def Let_def)

lemma linear_quantile_above:
  assumes "real (length arr) - 1 \<le> (real (length arr) - 1) * q"
  shows "linear_quantile arr q = arr ! (length arr - 1)"
  using assms by (simp add: linear_quantile_def Let_def)

text \<open>The interpolated value lies between the two order statistics around the index.\<close>

lemma interp_bounds:
  fixes arr :: "real list"
  assumes "sorted arr" and "0 \<le> v" and "v < real (length arr) - 1"
  shows "arr ! nat \<lfloor>v\<rfloor> \<le> arr ! nat \<lfloor>v\<rfloor> + (arr ! (nat \<lfloor>v\<rfloor> + 1) - arr ! nat \<lfloor>v\<rfloor>) * (v - real (nat \<lfloor>v\<rfloor>))"
    and "arr ! nat \<lfloor>v\<rfloor> + (arr ! (nat \<lfloor>v\<rfloor> + 1) - arr ! nat \<lfloor>v\<rfloor>) * (v - real (nat \<lfloor>v\<rfloor>)) \<le> arr ! (nat \<lfloor>v\<rfloor> + 1)"
proof -
  let ?i = "nat \<lfloor>v\<rfloor>"
  have fl: "real ?i = of_int \<lfloor>v\<rfloor>" using assms(2) by simp
  have g0: "0 \<le> v - real ?i" using fl by linarith
  have g1: "v - real ?i \<le> 1" using fl by linarith
  have "real ?i \<le> v" using fl by linarith
  then have "real ?i < real (length arr) - 1" using assms(3) by linarith
  then have lt: "?i + 1 < length arr" by linarith
  have d: "0 \<le> arr ! (?i + 1) - arr ! ?i"
    using sorted_nth_le [OF assms(1), of ?i "?i + 1"] lt by simp
  show "arr ! ?i \<le> arr ! ?i + (arr ! (?i + 1) - arr ! ?i) * (v - real ?i)"
    using d g0 by simp
  have "(arr ! (?i + 1) - arr ! ?i) * (v - real ?i) \<le> (arr ! (?i + 1) - arr ! ?i) * 1"
    using d g1 by (rule mult_left_mono [rotated]) 
  then show "arr ! ?i + (arr ! (?i + 1) - arr ! ?i) * (v - real ?i) \<le> arr ! (?i + 1)"
    by simp
qed

lemma linear_quantile_mono:
  fixes arr :: "real list"
  assumes srt: "sorted arr" and ne: "arr \<noteq> []" and p0: "0 \<le> p" and pq: "p \<le> q"
  shows "linear_quantile arr p \<le> linear_quantile arr q"
proof -
  let ?m = "real (length arr) - 1"
  have m0: "0 \<le> ?m" using ne by (cases arr) simp_all
  let ?u = "?m * p" and ?v = "?m * q"
  have u0: "0 \<le> ?u" using m0 p0 by simp
  have uv: "?u \<le> ?v" using m0 pq by (simp add: mult_left_mono)
  have lastn: "length arr - 1 < length arr" using ne by simp
  show ?thesis
  proof (cases "?m \<le> ?v")
    case vtop: True
    show ?thesis
    proof (cases "?m \<le> ?u")
      case True
      then show ?thesis using vtop by (simp add: linear_quantile_above)
    next
      case False
      then have ult: "?u < ?m" by simp
      have fl: "real (nat \<lfloor>?u\<rfloor>) = of_int \<lfloor>?u\<rfloor>" using u0 by simp
      have "real (nat \<lfloor>?u\<rfloor>) \<le> ?u" using fl by linarith
      then have "nat \<lfloor>?u\<rfloor> + 1 \<le> length arr - 1" using ult by linarith
      then have "arr ! (nat \<lfloor>?u\<rfloor> + 1) \<le> arr ! (length arr - 1)"
        using sorted_nth_le [OF srt _ lastn] by blast
      then show ?thesis
        using interp_bounds(2) [OF srt u0 ult] vtop ult
        by (simp add: linear_quantile_above linear_quantile_below)
    qed
  next
    case False
    then have vlt: "?v < ?m" by simp
    then have ult: "?u < ?m" using uv by linarith
    have v0: "0 \<le> ?v" using u0 uv by linarith
    let ?i = "nat \<lfloor>?u\<rfloor>" and ?j = "nat \<lfloor>?v\<rfloor>"
    have ij: "?i \<le> ?j" using uv by (simp add: floor_mono nat_mono)
    have flv: "real ?j = of_int \<lfloor>?v\<rfloor>" using v0 by simp
    have "real ?j \<le> ?v" using flv by linarith
    then have jlt: "?j + 1 < length arr" using vlt by linarith
    show ?thesis
    proof (cases "?i = ?j")
      case True
      have d: "0 \<le> arr ! (?j + 1) - arr ! ?j"
        using sorted_nth_le [OF srt _ jlt, of ?j] by simp
      have "(arr ! (?j + 1) - arr ! ?j) * (?u - real ?j) \<le> (arr ! (?j + 1) - arr ! ?j) * (?v - real ?j)"
        using d uv by (intro mult_left_mono) simp_all
      then show ?thesis
        using True ult vlt by (simp add: linear_quantile_below)
    next
      case False
      then have "?i + 1 \<le> ?j" using ij by simp
      then have "arr ! (?i + 1) \<le> arr ! ?j"
        using sorted_nth_le [OF srt, of "?i + 1" ?j] jlt by simp
      then show ?thesis
        using interp_bounds(2) [OF srt u0 ult] interp_bounds(1) [OF srt v0 vlt] ult vlt
        by (simp add: linear_quantile_below)
    qed
  qed
qed

lemma linear_quantile_0: "arr \<noteq> [] \<Longrightarrow> linear_quantile arr 0 = arr ! 0"
  by (cases arr) (simp_all add: linear_quantile_def Let_def)

lemma linear_quantile_1: "arr \<noteq> [] \<Longrightarrow> linear_quantile arr 1 = last arr"
  by (simp add: linear_quantile_def Let_def last_conv_nth)

lemma sort_not_Nil: "acts \<noteq> [] \<Longrightarrow> sort acts \<noteq> []"
  by (metis length_sort length_0_conv)

lemma np_percentile_ranks:
  assumes "acts \<noteq> []" and "list_all (\<lambda>x. 0 \<le> x \<and> x \<le> 1) (quantile_levels g)"
  shows "np_percentile (sort acts) (percentile_ranks g) = Inr (quantile_cuts acts g)"
proof -
  have "sort (sort acts) = sort acts" by (simp add: sorted_sort_id)
  then show ?thesis
    using assms sort_not_Nil [OF assms(1)]
    by (simp add: np_percentile_def quantile_cuts_def quantile_levels_def Let_def)
qed

lemma sorted_quantile_cuts:
  assumes "acts \<noteq> []" and "list_all (\<lambda>x. 0 \<le> x \<and> x \<le> 1) (quantile_levels g)"
    and "sorted (quantile_levels g)"
  shows "sorted (quantile_cuts acts g)"
proof -
  have ne: "sort acts \<noteq> []" by (rule sort_not_Nil [OF assms(1)])
  have "quantile_cuts acts g ! i \<le> quantile_cuts acts g ! j"
    if "i \<le> j" and "j < nat (g + 1)" for i j
  proof -
    have i: "i < nat (g + 1)" using that by simp
    have p0: "0 \<le> quantile_levels g ! i"
      using assms(2) i by (simp add: list_all_length length_quantile_levels)
    have pq: "quantile_levels g ! i \<le> quantile_levels g ! j"
      using assms(3) that by (simp add: sorted_iff_nth_mono length_quantile_levels)
    show ?thesis
      using linear_quantile_mono [OF sorted_sort ne p0 pq] i that(2)
      by (simp add: quantile_cuts_def length_quantile_levels)
  qed
  then show ?thesis
    by (simp add: sorted_iff_nth_mono length_quantile_cuts)
qed

lemma sorted_nth0_Min:
  fixes xs :: "real list"
  assumes "sorted xs" and "xs \<noteq> []"
  shows "xs ! 0 = Min (set xs)"
proof -
  have "Min (set xs) = xs ! 0"
  proof (rule Min_eqI)
    show "finite (set xs)" by simp
    show "xs ! 0 \<le> y" if "y \<in> set xs" for y
      using assms that by (cases xs) auto
    show "xs ! 0 \<in> set xs" using assms(2) by simp
  qed
  then show ?thesis by simp
qed

lemma sorted_last_Max:
  fixes xs :: "real list"
  assumes "sorted xs" and "xs \<noteq> []"
  shows "last xs = Max (set xs)"
proof -
  have "Max (set xs) = last xs"
  proof (rule Max_eqI)
    show "finite (set xs)" by simp
    show "y \<le> last xs" if "y \<in> set xs" for y
    proof -
      from that obtain i where i: "i < length xs" "xs ! i = y"
        unfolding in_set_conv_nth by blast
      have "length xs - 1 < length xs" using assms(2) by simp
      then have "xs ! i \<le> xs ! (length xs - 1)"
        using i(1) by (intro sorted_nth_le [OF assms(1)]) simp_all
      then show ?thesis using i(2) assms(2) by (simp add: last_conv_nth)
    qed
    show "last xs \<in> set xs" using assms(2) by simp
  qed
  then show ?thesis by simp
qed

lemma quantile_levels_0:
  assumes "0 \<le> g"
  shows "quantile_levels g ! 0 = 0"
  using assms by (simp add: quantile_levels_nth fl_0)

lemma hd_quantile_cuts:
  assumes "acts \<noteq> []" and "0 \<le> g"
  shows "hd (quantile_cuts acts g) = Min (set acts)"
proof -
  have ne: "sort acts \<noteq> []" by (rule sort_not_Nil [OF assms(1)])
  have len: "0 < nat (g + 1)" using assms(2) by simp
  then have "quantile_cuts acts g \<noteq> []" using length_quantile_cuts [of acts g] by auto
  then have "hd (quantile_cuts acts g) = quantile_cuts acts g ! 0" by (simp add: hd_conv_nth)
  also have "\<dots> = linear_quantile (sort acts) 0"
    using len quantile_levels_0 [OF assms(2)] by (simp add: quantile_cuts_def length_quantile_levels)
  also have "\<dots> = sort acts ! 0" by (rule linear_quantile_0 [OF ne])
  also have "\<dots> = Min (set acts)" using sorted_nth0_Min [OF sorted_sort ne] by simp
  finally show ?thesis .
qed

lemma last_quantile_cuts:
  assumes "acts \<noteq> []" and "0 \<le> g" and "last (quantile_levels g) = 1"
  shows "last (quantile_cuts acts g) = Max (set acts)"
proof -
  have ne: "sort acts \<noteq> []" by (rule sort_not_Nil [OF assms(1)])
  have "0 < nat (g + 1)" using assms(2) by simp
  then have "quantile_levels g \<noteq> []" using length_quantile_levels [of g] by auto
  then have "last (quantile_cuts acts g) = linear_quantile (sort acts) (last (quantile_levels g))"
    by (simp add: quantile_cuts_def last_map)
  also have "\<dots> = last (sort acts)" using linear_quantile_1 [OF ne] assms(3) by simp
  also have "\<dots> = Max (set acts)" using sorted_last_Max [OF sorted_sort ne] by simp
  finally show ?thesis .
qed

lemma group_creator_result:
  assumes "actual s \<noteq> []" and "1 \<le> group_k s"
    and "list_all (\<lambda>x. 0 \<le> x \<and> x \<le> 1) (quantile_levels (group_k s))"
    and "sorted (quantile_levels (group_k s))"
  shows "group_creator s =
           Inr (s\<lparr> cut_points := Some (quantile_cuts (actual s) (group_k s)),
                   actual_groups :=
                     map Suc (map (\<lambda>x. searchsorted (quantile_cuts (actual s) (group_k s)) x True) (actual s)),
                   expected_groups :=
                     map Suc (map (\<lambda>x. searchsorted (quantile_cuts (actual s) (group_k s)) x True) (expected s)) \<rparr>)"
  using assms(2) np_percentile_ranks [OF assms(1,3)] sorted_quantile_cuts [OF assms(1,3,4)]
  by (simp add: group_creator_def np_digitize_def)

text \<open>What a successful call of \<^verbatim>\<open>group_creator\<close> leaves in the object.\<close>

lemma group_creator_Inr:
  assumes "group_creator s = Inr s1"
  shows "actual s \<noteq> []"
    and "cut_points s1 = Some (quantile_cuts (actual s) (group_k s))"
    and "actual s1 = actual s" and "expected s1 = expected s" and "group_k s1 = group_k s"
    and "actual_percentages s1 = actual_percentages s"
    and "expected_percentages s1 = expected_percentages s"
    and "group_psi_values s1 = group_psi_values s"
proof -
  have perc: "np_percentile (sort (actual s)) (percentile_ranks (group_k s)) =
                Inr (quantile_cuts (actual s) (group_k s)) \<and> actual s \<noteq> []"
  proof (cases "np_percentile (sort (actual s)) (percentile_ranks (group_k s))")
    case (Inl e)
    then show ?thesis using assms by (simp add: group_creator_def split: if_splits)
  next
    case (Inr cps)
    then have "sort (actual s) \<noteq> []"
      and "cps = map (linear_quantile (sort (sort (actual s))))
                   (map (\<lambda>p. fl (p / 100)) (percentile_ranks (group_k s)))"
      by (auto simp: np_percentile_def Let_def split: if_splits)
    then show ?thesis
      using Inr by (auto simp: quantile_cuts_def quantile_levels_def sorted_sort_id)
  qed
  then show "actual s \<noteq> []" by simp
  have "s1 = s\<lparr> cut_points := Some (quantile_cuts (actual s) (group_k s)),
                 actual_groups := actual_groups s1,
                 expected_groups := expected_groups s1 \<rparr>"
    using assms perc by (auto simp: group_creator_def split: if_splits sum.splits)
  then have eq: "s1 = s\<lparr> cut_points := Some (quantile_cuts (actual s) (group_k s)),
                 actual_groups := actual_groups s1,
                 expected_groups := expected_groups s1 \<rparr>" .
  show "cut_points s1 = Some (quantile_cuts (actual s) (group_k s))" by (subst eq) simp
  show "actual s1 = actual s" by (subst eq) simp
  show "expected s1 = expected s" by (subst eq) simp
  show "group_k s1 = group_k s" by (subst eq) simp
  show "actual_percentages s1 = actual_percentages s" by (subst eq) simp
  show "expected_percentages s1 = expected_percentages s" by (subst eq) simp
  show "group_psi_values s1 = group_psi_values s" by (subst eq) simp
qed

text \<open>
  Eleven groups: the last rank, \<open>(100 / 11) * 11\<close> in double precision, is above 100,
  and \<^verbatim>\<open>np.percentile\<close> refuses it whatever the data.
\<close>

lemma quantile_levels_11_last: "quantile_levels 11 ! 11 = 4503599627370497 / 2 ^ 52"
proof -
  have "quantile_levels 11 ! 11 = fl (fl (fl (100 / 11) * 11) / 100)"
    using quantile_levels_nth [of 11 11] by simp
  also have "\<dots> = fl (fl (5117726849284655 / 2 ^ 49 * 11) / 100)"
    by (simp only: fl_100_div_11)
  also have "\<dots> = fl (7036874417766401 / 2 ^ 46 / 100)"
    by (simp only: fl_rank_11)
  also have "\<dots> = 4503599627370497 / 2 ^ 52"
    by (rule fl_level_11)
  finally show ?thesis .
qed

lemma np_percentile_11:
  "np_percentile arr (percentile_ranks 11) =
     Inl (ValueError ''Percentiles must be in the range [0, 100]'')"
proof -
  have "\<not> (quantile_levels 11 ! 11 \<le> 1)" by (simp add: quantile_levels_11_last)
  moreover have "11 < length (quantile_levels 11)" by (simp add: length_quantile_levels)
  ultimately have "\<not> list_all (\<lambda>x. 0 \<le> x \<and> x \<le> 1) (quantile_levels 11)"
    unfolding list_all_length by blast
  then show ?thesis
    by (simp add: np_percentile_def Let_def quantile_levels_def)
qed

lemma group_creator_11:
  assumes "group_k s = 11"
  shows "group_creator s = Inl (ValueError ''Percentiles must be in the range [0, 100]'')"
  using assms by (simp add: group_creator_def np_percentile_11)

section \<open>The scoring loop\<close>

lemma psi_step_result:
  assumes "cut_points s = Some cps" and "cut_index + 1 < length cps"
  shows "psi_step s cut_index =
           Inr (s\<lparr> actual_percentages :=
                     actual_percentages s @ [actual_perc_of (actual s) cps cut_index],
                   expected_percentages :=
                     expected_percentages s @ [expected_perc_of (expected s) (group_k s) cps cut_index],
                   group_psi_values :=
                     group_psi_values s @ [group_psi_at (actual s) (expected s) (group_k s) cps cut_index] \<rparr>)"
  using assms
  by (simp add: psi_step_def Let_def actual_perc_of_def expected_perc_of_def group_psi_of_def
      group_psi_at_def)

lemma psi_loop_result:
  assumes "cut_points s = Some cps" and "list_all (\<lambda>i. i + 1 < length cps) idxs"
  shows "psi_loop s idxs =
           Inr (s\<lparr> actual_percentages :=
                     actual_percentages s @ map (actual_perc_of (actual s) cps) idxs,
                   expected_percentages :=
                     expected_percentages s @ map (expected_perc_of (expected s) (group_k s) cps) idxs,
                   group_psi_values :=
                     group_psi_values s @ map (group_psi_at (actual s) (expected s) (group_k s) cps) idxs \<rparr>)"
  using assms
proof (induction idxs arbitrary: s)
  case Nil
  then show ?case by simp
next
  case (Cons i idxs)
  have i: "i + 1 < length cps" and rest: "list_all (\<lambda>i. i + 1 < length cps) idxs"
    using Cons.prems(2) by simp_all
  let ?s1 = "s\<lparr> actual_percentages :=
                     actual_percentages s @ [actual_perc_of (actual s) cps i],
                   expected_percentages :=
                     expected_percentages s @ [expected_perc_of (expected s) (group_k s) cps i],
                   group_psi_values :=
                     group_psi_values s @ [group_psi_at (actual s) (expected s) (group_k s) cps i] \<rparr>"
  have cp1: "cut_points ?s1 = Some cps" using Cons.prems(1) by simp
  show ?case
    using psi_step_result [OF Cons.prems(1) i] Cons.IH [OF cp1 rest]
    by simp
qed

lemma psi_calculator_cached:
  assumes "cut_points s = Some cps" and "length cps = nat (group_k s) + 1"
  shows "psi_calculator s =
           Inr (s\<lparr> actual_percentages :=
                     actual_percentages s @ map (actual_perc_of (actual s) cps) [0..<nat (group_k s)],
                   expected_percentages :=
                     expected_percentages s @ map (expected_perc_of (expected s) (group_k s) cps) [0..<nat (group_k s)],
                   group_psi_values :=
                     group_psi_values s @ map (group_psi_at (actual s) (expected s) (group_k s) cps) [0..<nat (group_k s)],
                   psi := Some (np_sum (group_psi_values s @ map (group_psi_at (actual s) (expected s) (group_k s) cps) [0..<nat (group_k s)])) \<rparr>,
                np_sum (group_psi_values s @ map (group_psi_at (actual s) (expected s) (group_k s) cps) [0..<nat (group_k s)]),
                group_psi_values s @ map (group_psi_at (actual s) (expected s) (group_k s) cps) [0..<nat (group_k s)])"
proof -
  have "list_all (\<lambda>i. i + 1 < length cps) [0..<nat (group_k s)]"
    using assms(2) by (simp add: list_all_iff)
  from psi_loop_result [OF assms(1) this] show ?thesis
    using assms(1) by (simp add: psi_calculator_def Let_def)
qed

lemma PSIAnalyzer_init_Inr:
  assumes "PSIAnalyzer_init actual_arg expected_arg group_arg = Inr s"
  obtains g where "group_arg = PyInt g" and "2 \<le> g"
    and "s = initial_object (container_values actual_arg) (container_values expected_arg) g"
  using assms
  by (cases group_arg) (auto simp: PSIAnalyzer_init_def split: if_splits)

text \<open>
  The first call on an object without cut points: once \<^verbatim>\<open>group_creator\<close> has returned,
  the loop runs through all groups and the method returns.
\<close>

lemma first_call:
  assumes "cut_points s = None" and "group_creator s = Inr s1" and "0 \<le> group_k s"
  shows "\<exists>s'. psi_calculator s = Inr (s', np_sum (group_psi_values s'), group_psi_values s') \<and>
           cut_points s' = Some (quantile_cuts (actual s) (group_k s)) \<and>
           actual_percentages s' =
             actual_percentages s @
             map (actual_perc_of (actual s) (quantile_cuts (actual s) (group_k s))) [0..<nat (group_k s)] \<and>
           expected_percentages s' =
             expected_percentages s @
             map (expected_perc_of (expected s) (group_k s) (quantile_cuts (actual s) (group_k s)))
               [0..<nat (group_k s)] \<and>
           group_psi_values s' =
             group_psi_values s @
             map (group_psi_at (actual s) (expected s) (group_k s) (quantile_cuts (actual s) (group_k s)))
               [0..<nat (group_k s)]"
proof -
  note gc = group_creator_Inr [OF assms(2)]
  have len: "length (quantile_cuts (actual s) (group_k s)) = nat (group_k s1) + 1"
    using assms(3) gc(5) by (simp add: length_quantile_cuts nat_add_distrib)
  have "psi_calculator s = psi_calculator s1"
    using assms(1,2) gc(2) by (simp add: psi_calculator_def)
  then show ?thesis
    unfolding psi_calculator_cached [OF gc(2) len]
    by (simp add: gc)
qed

lemma psi_calculator_Inr_group_creator:
  assumes "cut_points s = None" and "psi_calculator s = Inr r"
  shows "\<exists>s1. group_creator s = Inr s1"
  using assms by (cases "group_creator s") (simp_all add: psi_calculator_def)

lemma first_call_of_init:
  assumes "PSIAnalyzer_init actual_arg expected_arg group_arg = Inr s"
    and "group_creator s = Inr s1"
  shows "\<exists>s'. psi_calculator s = Inr (s', np_sum (group_psi_values s'), group_psi_values s') \<and>
           cut_points s' = Some (quantile_cuts (actual s) (group_k s)) \<and>
           actual_percentages s' =
             map (actual_perc_of (actual s) (quantile_cuts (actual s) (group_k s))) [0..<nat (group_k s)] \<and>
           expected_percentages s' =
             map (expected_perc_of (expected s) (group_k s) (quantile_cuts (actual s) (group_k s)))
               [0..<nat (group_k s)] \<and>
           group_psi_values s' =
             map (group_psi_at (actual s) (expected s) (group_k s) (quantile_cuts (actual s) (group_k s)))
               [0..<nat (group_k s)]"
proof -
  obtain g where g: "2 \<le> g"
    and s: "s = initial_object (container_values actual_arg) (container_values expected_arg) g"
    using assms(1) by (rule PSIAnalyzer_init_Inr)
  have fresh: "cut_points s = None" "0 \<le> group_k s" "actual_percentages s = []"
    "expected_percentages s = []" "group_psi_values s = []"
    using g by (simp_all add: s initial_object_def)
  show ?thesis
    using first_call [OF fresh(1) assms(2) fresh(2)] by (simp add: fresh)
qed

lemma scored_of_init:
  assumes "PSIAnalyzer_init actual_arg expected_arg group_arg = Inr s"
    and "psi_calculator s = Inr (s', score, gs)"
  shows "actual s \<noteq> [] \<and> gs = group_psi_values s' \<and> score = np_sum gs \<and>
           cut_points s' = Some (quantile_cuts (actual s) (group_k s)) \<and>
           actual_percentages s' =
             map (actual_perc_of (actual s) (quantile_cuts (actual s) (group_k s))) [0..<nat (group_k s)] \<and>
           expected_percentages s' =
             map (expected_perc_of (expected s) (group_k s) (quantile_cuts (actual s) (group_k s)))
               [0..<nat (group_k s)] \<and>
           group_psi_values s' =
             map (group_psi_at (actual s) (expected s) (group_k s) (quantile_cuts (actual s) (group_k s)))
               [0..<nat (group_k s)]"
proof -
  obtain g where "s = initial_object (container_values actual_arg) (container_values expected_arg) g"
    using assms(1) by (rule PSIAnalyzer_init_Inr)
  then have "cut_points s = None" by (simp add: initial_object_def)
  then obtain s1 where gc: "group_creator s = Inr s1"
    using psi_calculator_Inr_group_creator [OF _ assms(2)] by blast
  have ne: "actual s \<noteq> []" by (rule group_creator_Inr(1) [OF gc])
  show ?thesis
    using first_call_of_init [OF assms(1) gc] assms(2) ne by auto
qed

lemma actual_perc_of_Fin:
  assumes "acts \<noteq> []"
  shows "actual_perc_of acts cps i =
           Fin (real (count_half_open acts (cps ! i) (cps ! (i + 1))) / real (length acts))"
  using assms by (simp add: actual_perc_of_def int_true_divide_def)

lemma expected_perc_of_positive:
  assumes "exps \<noteq> []"
  shows "np_positive (expected_perc_of exps g cps i)"
  using assms by (simp add: expected_perc_of_def int_true_divide_def Let_def)

lemma group_psi_of_pos:
  assumes "0 < a" and "0 < e"
  shows "group_psi_of (Fin a) (Fin e) = Fin ((a - e) * ln (a / e))"
  using assms by (simp add: group_psi_of_def)

lemma group_psi_of_zero:
  assumes "0 < e"
  shows "group_psi_of (Fin 0) (Fin e) = PInf"
  using assms by (simp add: group_psi_of_def)

lemma psi_term_nonneg:
  fixes a e :: real
  assumes "0 < a" and "0 < e"
  shows "0 \<le> (a - e) * ln (a / e)"
proof (cases "e \<le> a")
  case True
  then have "1 \<le> a / e" using assms by simp
  then have "0 \<le> ln (a / e)" by simp
  moreover have "0 \<le> a - e" using True by simp
  ultimately show ?thesis by simp
next
  case False
  then have "a / e \<le> 1" and "0 < a / e" using assms by simp_all
  then have "ln (a / e) \<le> 0" by simp
  moreover have "a - e \<le> 0" using False by simp
  ultimately show ?thesis by (rule mult_nonpos_nonpos [rotated])
qed

lemma group_psi_of_nonneg:
  assumes "0 \<le> a" and "0 < e"
  shows "np_nonneg (group_psi_of (Fin a) (Fin e))"
proof (cases "a = 0")
  case True
  then show ?thesis using assms(2) by (simp add: group_psi_of_zero)
next
  case False
  then have "0 < a" using assms(1) by simp
  then show ?thesis using assms(2) by (simp add: group_psi_of_pos psi_term_nonneg)
qed

lemma np_add_nonneg: "np_nonneg a \<Longrightarrow> np_nonneg b \<Longrightarrow> np_nonneg (np_add a b)"
  by (cases a; cases b) simp_all

lemma foldl_np_add_nonneg:
  "np_nonneg acc \<Longrightarrow> list_all np_nonneg xs \<Longrightarrow> np_nonneg (foldl np_add acc xs)"
  by (induction xs arbitrary: acc) (simp_all add: np_add_nonneg)

lemma np_sum_nonneg: "list_all np_nonneg xs \<Longrightarrow> np_nonneg (np_sum xs)"
  by (simp add: np_sum_def foldl_np_add_nonneg)

lemma group_psi_at_nonneg:
  assumes "acts \<noteq> []" and "exps \<noteq> []"
  shows "np_nonneg (group_psi_at acts exps g cps i)"
proof -
  obtain e where e: "expected_perc_of exps g cps i = Fin e" "0 < e"
    using expected_perc_of_positive [OF assms(2), of g cps i]
    by (cases "expected_perc_of exps g cps i") simp_all
  have "0 \<le> real (count_half_open acts (cps ! i) (cps ! (i + 1))) / real (length acts)"
    by simp
  then show ?thesis
    using e by (simp add: group_psi_at_def actual_perc_of_Fin [OF assms(1)] group_psi_of_nonneg)
qed

lemma foldl_np_add_NaN: "foldl np_add NaN xs = NaN"
  by (induction xs) simp_all

lemma np_sum_replicate_NaN: "0 < n \<Longrightarrow> np_sum (replicate n NaN) = NaN"
  by (cases n) (simp_all add: np_sum_def foldl_np_add_NaN)

lemma expected_perc_of_empty: "expected_perc_of [] g cps i = NaN"
  by (simp add: expected_perc_of_def count_half_open_def count_closed_def int_true_divide_def)

lemma group_psi_at_empty_expected:
  assumes "acts \<noteq> []"
  shows "group_psi_at acts [] g cps i = NaN"
  by (simp add: group_psi_at_def group_psi_of_def expected_perc_of_empty actual_perc_of_Fin [OF assms])

lemma map_expected_perc_of_empty:
  "map (expected_perc_of [] g cps) idxs = replicate (length idxs) NaN"
  by (induction idxs) (simp_all add: expected_perc_of_empty)

lemma map_group_psi_at_empty_expected:
  assumes "acts \<noteq> []"
  shows "map (group_psi_at acts [] g cps) idxs = replicate (length idxs) NaN"
  by (induction idxs) (simp_all add: group_psi_at_empty_expected [OF assms])

lemma first_call_frame:
  assumes "cut_points s = None" and "group_creator s = Inr s1" and "0 \<le> group_k s"
    and "psi_calculator s = Inr (s', score, gs)"
  shows "actual s' = actual s" and "expected s' = expected s" and "group_k s' = group_k s"
proof -
  note gc = group_creator_Inr [OF assms(2)]
  have len: "length (quantile_cuts (actual s) (group_k s)) = nat (group_k s1) + 1"
    using assms(3) gc(5) by (simp add: length_quantile_cuts nat_add_distrib)
  have "psi_calculator s = psi_calculator s1"
    using assms(1,2) gc(2) by (simp add: psi_calculator_def)
  then have eq: "psi_calculator s1 = Inr (s', score, gs)" using assms(4) by simp
  show "actual s' = actual s" and "expected s' = expected s" and "group_k s' = group_k s"
    using eq unfolding psi_calculator_cached [OF gc(2) len] by (auto simp: gc)
qed

lemma count_half_open_split:
  assumes "a \<le> b" and "b \<le> c"
  shows "count_half_open xs a c = count_half_open xs a b + count_half_open xs b c"
  using assms by (induction xs) (auto simp: count_half_open_def)

lemma count_half_open_telescope:
  assumes "sorted cps" and "k < length cps"
  shows "sum_list (map (\<lambda>i. count_half_open xs (cps ! i) (cps ! (i + 1))) [0..<k]) =
           count_half_open xs (cps ! 0) (cps ! k)"
  using assms(2)
proof (induction k)
  case 0
  then show ?case by (simp add: count_half_open_def)
next
  case (Suc k)
  have "cps ! 0 \<le> cps ! k" and "cps ! k \<le> cps ! Suc k"
    using assms(1) Suc.prems by (simp_all add: sorted_nth_le)
  then show ?case
    using Suc count_half_open_split [of "cps ! 0" "cps ! k" "cps ! Suc k" xs] by simp
qed

lemma foldl_np_add_Fin: "foldl np_add (Fin a) (map Fin xs) = Fin (a + sum_list xs)"
  by (induction xs arbitrary: a) (simp_all add: add.assoc)

lemma np_sum_Fin: "np_sum (map Fin xs) = Fin (sum_list xs)"
  by (simp add: np_sum_def foldl_np_add_Fin)

lemma sum_list_divide:
  fixes n :: real
  shows "sum_list (map (\<lambda>i. real (f i) / n) idxs) = real (sum_list (map f idxs)) / n"
  by (induction idxs) (simp_all add: add_divide_distrib)

lemma np_sum_actual_perc:
  assumes "acts \<noteq> []" and "sorted cps" and "k < length cps"
  shows "np_sum (map (actual_perc_of acts cps) [0..<k]) =
           Fin (real (count_half_open acts (cps ! 0) (cps ! k)) / real (length acts))"
proof -
  have "map (actual_perc_of acts cps) [0..<k] =
          map Fin (map (\<lambda>i. real (count_half_open acts (cps ! i) (cps ! (i + 1))) / real (length acts)) [0..<k])"
    by (simp add: actual_perc_of_Fin [OF assms(1)])
  then show ?thesis
    by (simp only: np_sum_Fin sum_list_divide count_half_open_telescope [OF assms(2,3)])
qed

lemma count_below_Max:
  assumes "acts \<noteq> []"
  shows "count_half_open acts (Min (set acts)) (Max (set acts)) =
           length (filter (\<lambda>x. x < Max (set acts)) acts)"
proof -
  have "filter (\<lambda>x. Min (set acts) \<le> x \<and> x < Max (set acts)) acts =
          filter (\<lambda>x. x < Max (set acts)) acts"
    by (rule filter_cong) simp_all
  then show ?thesis by (simp add: count_half_open_def)
qed

lemma count_below_Max_less:
  assumes "acts \<noteq> []"
  shows "length (filter (\<lambda>x. x < Max (set acts)) acts) < length acts"
proof -
  have "Max (set acts) \<in> set acts" using assms by simp
  then show ?thesis by (intro length_filter_less [of "Max (set acts)"]) simp_all
qed

section \<open>Worked runs\<close>

text \<open>
  The constructor and the two methods evaluated on concrete data: the integers 1 to 10
  against themselves in two groups, a dataset with a repeated minimum, and an empty
  expected dataset. For two groups the ranks 0, 50 and 100 and the levels 0, 1/2 and 1
  are exact in double precision.
\<close>

lemma ranks_2: "percentile_ranks 2 = [0, 50, 100]"
  by (simp add: percentile_ranks_def upt_rec fl_0 fl_50 fl_100)

lemma quantile_levels_2: "quantile_levels 2 = [0, 1 / 2, 1]"
  by (simp add: quantile_levels_def ranks_2 fl_0 fl_half fl_1)

lemma levels_2_valid:
  shows "list_all (\<lambda>x. 0 \<le> x \<and> x \<le> 1) (quantile_levels 2)"
    and "sorted (quantile_levels 2)"
    and "last (quantile_levels 2) = 1"
  by (simp_all add: quantile_levels_2)

lemma ex_init:
  "PSIAnalyzer_init (PyList [1, 2, 3, 4, 5, 6, 7, 8, 9, 10]) (PyList [1, 2, 3, 4, 5, 6, 7, 8, 9, 10]) (PyInt 2) =
     Inr (initial_object [1, 2, 3, 4, 5, 6, 7, 8, 9, 10] [1, 2, 3, 4, 5, 6, 7, 8, 9, 10] 2)"
  by (simp add: PSIAnalyzer_init_def)

lemma ex_group_creator:
  "group_creator (initial_object [1, 2, 3, 4, 5, 6, 7, 8, 9, 10] [1, 2, 3, 4, 5, 6, 7, 8, 9, 10] 2) =
     Inr ((initial_object [1, 2, 3, 4, 5, 6, 7, 8, 9, 10] [1, 2, 3, 4, 5, 6, 7, 8, 9, 10] 2)
          \<lparr> cut_points := Some [1, 11 / 2, 10],
            actual_groups := [1, 2, 2, 2, 2, 3, 3, 3, 3, 3],
            expected_groups := [1, 2, 2, 2, 2, 3, 3, 3, 3, 3] \<rparr>)"
  by (simp add: group_creator_def initial_object_def ranks_2 np_percentile_def Let_def fl_0 fl_half fl_1 linear_quantile_def np_digitize_def searchsorted_def)

lemma ex_first_call:
  "psi_calculator (initial_object [1, 2, 3, 4, 5, 6, 7, 8, 9, 10] [1, 2, 3, 4, 5, 6, 7, 8, 9, 10] 2) =
     Inr ((initial_object [1, 2, 3, 4, 5, 6, 7, 8, 9, 10] [1, 2, 3, 4, 5, 6, 7, 8, 9, 10] 2)
          \<lparr> cut_points := Some [1, 11 / 2, 10],
            actual_groups := [1, 2, 2, 2, 2, 3, 3, 3, 3, 3],
            expected_groups := [1, 2, 2, 2, 2, 3, 3, 3, 3, 3],
            actual_percentages := [Fin (1 / 2), Fin (2 / 5)],
            expected_percentages := [Fin (1 / 2), Fin (1 / 2)],
            group_psi_values := [Fin 0, Fin (- (ln (4 / 5) / 10))],
            psi := Some (Fin (- (ln (4 / 5) / 10))) \<rparr>,
          Fin (- (ln (4 / 5) / 10)),
          [Fin 0, Fin (- (ln (4 / 5) / 10))])"
  by (simp add: psi_calculator_def ex_group_creator)
     (simp add: initial_object_def upt_rec psi_step_def Let_def count_half_open_def count_closed_def int_true_divide_def np_sum_def)

lemma ex_second_call:
  "psi_calculator
     ((initial_object [1, 2, 3, 4, 5, 6, 7, 8, 9, 10] [1, 2, 3, 4, 5, 6, 7, 8, 9, 10] 2)
          \<lparr> cut_points := Some [1, 11 / 2, 10],
            actual_groups := [1, 2, 2, 2, 2, 3, 3, 3, 3, 3],
            expected_groups := [1, 2, 2, 2, 2, 3, 3, 3, 3, 3],
            actual_percentages := [Fin (1 / 2), Fin (2 / 5)],
            expected_percentages := [Fin (1 / 2), Fin (1 / 2)],
            group_psi_values := [Fin 0, Fin (- (ln (4 / 5) / 10))],
            psi := Some (Fin (- (ln (4 / 5) / 10))) \<rparr>) =
     Inr ((initial_object [1, 2, 3, 4, 5, 6, 7, 8, 9, 10] [1, 2, 3, 4, 5, 6, 7, 8, 9, 10] 2)
          \<lparr> cut_points := Some [1, 11 / 2, 10],
            actual_groups := [1, 2, 2, 2, 2, 3, 3, 3, 3, 3],
            expected_groups := [1, 2, 2, 2, 2, 3, 3, 3, 3, 3],
            actual_percentages := [Fin (1 / 2), Fin (2 / 5), Fin (1 / 2), Fin (2 / 5)],
            expected_percentages := [Fin (1 / 2), Fin (1 / 2), Fin (1 / 2), Fin (1 / 2)],
            group_psi_values := [Fin 0, Fin (- (ln (4 / 5) / 10)), Fin 0, Fin (- (ln (4 / 5) / 10))],
            psi := Some (Fin (- (ln (4 / 5) / 5))) \<rparr>,
          Fin (- (ln (4 / 5) / 5)),
          [Fin 0, Fin (- (ln (4 / 5) / 10)), Fin 0, Fin (- (ln (4 / 5) / 10))])"
  by (simp add: psi_calculator_def)
     (simp add: initial_object_def upt_rec psi_step_def Let_def count_half_open_def count_closed_def int_true_divide_def np_sum_def)



lemma ex_empty_expected_group_creator:
  "group_creator (initial_object [1, 2] [] 2) =
     Inr ((initial_object [1, 2] [] 2)
          \<lparr> cut_points := Some [1, 3 / 2, 2],
            actual_groups := [1, 3],
            expected_groups := [] \<rparr>)"
  by (simp add: group_creator_def initial_object_def ranks_2 np_percentile_def Let_def fl_0 fl_half fl_1 linear_quantile_def np_digitize_def searchsorted_def)

lemma ex_empty_expected_call:
  "psi_calculator (initial_object [1, 2] [] 2) =
     Inr ((initial_object [1, 2] [] 2)
          \<lparr> cut_points := Some [1, 3 / 2, 2],
            actual_groups := [1, 3],
            expected_groups := [],
            actual_percentages := [Fin (1 / 2), Fin 0],
            expected_percentages := [NaN, NaN],
            group_psi_values := [NaN, NaN],
            psi := Some NaN \<rparr>,
          NaN,
          [NaN, NaN])"
  by (simp add: psi_calculator_def ex_empty_expected_group_creator)
     (simp add: initial_object_def upt_rec psi_step_def Let_def count_half_open_def count_closed_def int_true_divide_def np_sum_def)

section \<open>The claims about the cut points and the groups\<close>

text \<open>
  Claim C8 states that \<^verbatim>\<open>group_creator\<close> produces \<open>k + 1\<close> cut points for every
  non-empty actual dataset and every valid group count \<open>k\<close>. The constructor accepts
  \<open>k = 11\<close>, but the last rank \<^verbatim>\<open>(100 / 11) * 11\<close> is 100.00000000000001 in double
  precision, \<^verbatim>\<open>np.percentile\<close> raises its ValueError, and neither \<^verbatim>\<open>group_creator\<close>
  nor \<^verbatim>\<open>_psi_calculator\<close> returns.
\<close>

theorem eleven_groups_rejected:
  "PSIAnalyzer_init (PyList [1, 2, 3, 4, 5, 6, 7, 8, 9, 10]) (PyList [1, 2, 3, 4, 5, 6, 7, 8, 9, 10]) (PyInt 11) =
     Inr (initial_object [1, 2, 3, 4, 5, 6, 7, 8, 9, 10] [1, 2, 3, 4, 5, 6, 7, 8, 9, 10] 11) \<and>
   group_creator (initial_object [1, 2, 3, 4, 5, 6, 7, 8, 9, 10] [1, 2, 3, 4, 5, 6, 7, 8, 9, 10] 11) =
     Inl (ValueError ''Percentiles must be in the range [0, 100]'') \<and>
   psi_calculator (initial_object [1, 2, 3, 4, 5, 6, 7, 8, 9, 10] [1, 2, 3, 4, 5, 6, 7, 8, 9, 10] 11) =
     Inl (ValueError ''Percentiles must be in the range [0, 100]'')"
proof -
  have k: "group_k (initial_object [1, 2, 3, 4, 5, 6, 7, 8, 9, 10] [1, 2, 3, 4, 5, 6, 7, 8, 9, 10] 11) = 11"
    and c: "cut_points (initial_object [1, 2, 3, 4, 5, 6, 7, 8, 9, 10] [1, 2, 3, 4, 5, 6, 7, 8, 9, 10] 11) = None"
    by (simp_all add: initial_object_def)
  have gc: "group_creator (initial_object [1, 2, 3, 4, 5, 6, 7, 8, 9, 10] [1, 2, 3, 4, 5, 6, 7, 8, 9, 10] 11) =
     Inl (ValueError ''Percentiles must be in the range [0, 100]'')"
    by (rule group_creator_11 [OF k])
  then show ?thesis using c by (simp add: PSIAnalyzer_init_def psi_calculator_def)
qed

text \<open>
  The cut points for a group count with exact levels. Whenever the quantile levels of
  the group count \<open>k\<close> (the ranks divided by 100, in double precision) lie in [0, 1],
  are non-decreasing and end in 1, \<^verbatim>\<open>group_creator\<close> returns on a non-empty actual
  dataset and stores exactly \<open>k + 1\<close> cut points; they are non-decreasing, the first
  is the minimum of the actual dataset and the last is its maximum.
\<close>

theorem cut_points_of_exact_levels:
  assumes "actual s \<noteq> []" and "2 \<le> group_k s"
    and "list_all (\<lambda>x. 0 \<le> x \<and> x \<le> 1) (quantile_levels (group_k s))"
    and "sorted (quantile_levels (group_k s))"
    and "last (quantile_levels (group_k s)) = 1"
  shows "\<exists>s' cps. group_creator s = Inr s' \<and> cut_points s' = Some cps \<and>
           length cps = nat (group_k s) + 1 \<and> sorted cps \<and>
           hd cps = Min (set (actual s)) \<and> last cps = Max (set (actual s))"
proof -
  have g1: "1 \<le> group_k s" and g0: "0 \<le> group_k s" using assms(2) by simp_all
  show ?thesis
    using group_creator_result [OF assms(1) g1 assms(3,4)]
      length_quantile_cuts [of "actual s" "group_k s"]
      sorted_quantile_cuts [OF assms(1,3,4)] hd_quantile_cuts [OF assms(1) g0]
      last_quantile_cuts [OF assms(1) g0 assms(5)] g1
    by (simp add: nat_add_distrib)
qed

theorem cut_points_of_exact_levels_witness:
  "actual (initial_object [1, 2, 3, 4, 5, 6, 7, 8, 9, 10] [1, 2, 3, 4, 5, 6, 7, 8, 9, 10] 2) \<noteq> [] \<and>
   2 \<le> group_k (initial_object [1, 2, 3, 4, 5, 6, 7, 8, 9, 10] [1, 2, 3, 4, 5, 6, 7, 8, 9, 10] 2) \<and>
   list_all (\<lambda>x. 0 \<le> x \<and> x \<le> 1) (quantile_levels (group_k (initial_object [1, 2, 3, 4, 5, 6, 7, 8, 9, 10] [1, 2, 3, 4, 5, 6, 7, 8, 9, 10] 2))) \<and>
   sorted (quantile_levels (group_k (initial_object [1, 2, 3, 4, 5, 6, 7, 8, 9, 10] [1, 2, 3, 4, 5, 6, 7, 8, 9, 10] 2))) \<and>
   last (quantile_levels (group_k (initial_object [1, 2, 3, 4, 5, 6, 7, 8, 9, 10] [1, 2, 3, 4, 5, 6, 7, 8, 9, 10] 2))) = 1 \<and>
   (\<exists>s' cps. group_creator (initial_object [1, 2, 3, 4, 5, 6, 7, 8, 9, 10] [1, 2, 3, 4, 5, 6, 7, 8, 9, 10] 2) = Inr s' \<and>
      cut_points s' = Some cps \<and> length cps = 3 \<and> sorted cps \<and> hd cps = 1 \<and> last cps = 10)"
proof -
  have k: "group_k (initial_object [1, 2, 3, 4, 5, 6, 7, 8, 9, 10] [1, 2, 3, 4, 5, 6, 7, 8, 9, 10] 2) = 2"
    and a: "actual (initial_object [1, 2, 3, 4, 5, 6, 7, 8, 9, 10] [1, 2, 3, 4, 5, 6, 7, 8, 9, 10] 2) \<noteq> []"
    by (simp_all add: initial_object_def)
  have g: "2 \<le> group_k (initial_object [1, 2, 3, 4, 5, 6, 7, 8, 9, 10] [1, 2, 3, 4, 5, 6, 7, 8, 9, 10] 2)" by (simp add: k)
  have lv: "list_all (\<lambda>x. 0 \<le> x \<and> x \<le> 1) (quantile_levels (group_k (initial_object [1, 2, 3, 4, 5, 6, 7, 8, 9, 10] [1, 2, 3, 4, 5, 6, 7, 8, 9, 10] 2)))"
    "sorted (quantile_levels (group_k (initial_object [1, 2, 3, 4, 5, 6, 7, 8, 9, 10] [1, 2, 3, 4, 5, 6, 7, 8, 9, 10] 2)))"
    "last (quantile_levels (group_k (initial_object [1, 2, 3, 4, 5, 6, 7, 8, 9, 10] [1, 2, 3, 4, 5, 6, 7, 8, 9, 10] 2))) = 1"
    using levels_2_valid by (simp_all only: k)
  show ?thesis
    using cut_points_of_exact_levels [OF a g lv] a g lv
    by (simp add: initial_object_def)
qed

text \<open>
  Claim C9 states that every sample of the actual dataset gets a group index from 1 to
  \<open>k\<close>. \<^verbatim>\<open>np.digitize(..., right=True) + 1\<close> counts the cut points below the sample and
  adds one: on 1 to 10 in two groups the sample 10, the maximum, gets the index 3.
\<close>

theorem group_index_exceeds_count:
  "group_creator (initial_object [1, 2, 3, 4, 5, 6, 7, 8, 9, 10] [1, 2, 3, 4, 5, 6, 7, 8, 9, 10] 2) =
     Inr ((initial_object [1, 2, 3, 4, 5, 6, 7, 8, 9, 10] [1, 2, 3, 4, 5, 6, 7, 8, 9, 10] 2)
          \<lparr> cut_points := Some [1, 11 / 2, 10],
            actual_groups := [1, 2, 2, 2, 2, 3, 3, 3, 3, 3],
            expected_groups := [1, 2, 2, 2, 2, 3, 3, 3, 3, 3] \<rparr>) \<and>
   [1, 2, 3, 4, 5, 6, 7, 8, 9, 10] ! 9 = (10::real) \<and> [1, 2, 2, 2, 2, 3, 3, 3, 3, 3] ! 9 = (3::nat)"
  using ex_group_creator by simp

section \<open>The claims about the score\<close>

text \<open>
  Claim C1 states the contribution of a group with positive proportions \<open>a\<close>
  (actual) and \<open>e\<close> (expected) as \<open>(a - e) * ln (e / a)\<close>, the formula of the class
  docstring. The code computes \<^verbatim>\<open>np.log(actual_perc / expected_perc)\<close> instead: on
  1 to 10 against itself in two groups the second group has \<open>a = 2/5\<close> and \<open>e = 1/2\<close>,
  and its contribution \<open>(2/5 - 1/2) * ln ((2/5) / (1/2))\<close> is not the value
  \<open>(2/5 - 1/2) * ln ((1/2) / (2/5))\<close> of the documented formula.
\<close>

theorem contribution_against_docstring:
  "psi_calculator (initial_object [1, 2, 3, 4, 5, 6, 7, 8, 9, 10] [1, 2, 3, 4, 5, 6, 7, 8, 9, 10] 2) =
     Inr ((initial_object [1, 2, 3, 4, 5, 6, 7, 8, 9, 10] [1, 2, 3, 4, 5, 6, 7, 8, 9, 10] 2)
          \<lparr> cut_points := Some [1, 11 / 2, 10],
            actual_groups := [1, 2, 2, 2, 2, 3, 3, 3, 3, 3],
            expected_groups := [1, 2, 2, 2, 2, 3, 3, 3, 3, 3],
            actual_percentages := [Fin (1 / 2), Fin (2 / 5)],
            expected_percentages := [Fin (1 / 2), Fin (1 / 2)],
            group_psi_values := [Fin 0, Fin (- (ln (4 / 5) / 10))],
            psi := Some (Fin (- (ln (4 / 5) / 10))) \<rparr>,
          Fin (- (ln (4 / 5) / 10)),
          [Fin 0, Fin (- (ln (4 / 5) / 10))]) \<and>
   [Fin 0, Fin (- (ln (4 / 5) / 10))] ! 1 = Fin ((2 / 5 - 1 / 2) * ln ((2 / 5) / (1 / 2))) \<and>
   [Fin 0, Fin (- (ln (4 / 5) / 10))] ! 1 \<noteq> Fin ((2 / 5 - 1 / 2) * ln ((1 / 2) / (2 / 5)))"
proof -
  have "ln (4 / 5 :: real) < 0" and "0 < ln (5 / 4 :: real)" by simp_all
  then have "- (ln (4 / 5) / 10) \<noteq> (2 / 5 - 1 / 2) * ln ((1 / 2) / (2 / 5) :: real)" by simp
  then show ?thesis using ex_first_call by simp
qed

text \<open>
  Claim C2 states that the actual proportions of the groups sum to 1. In the last group
  only the expected proportion is counted again with a closed upper bound; the actual
  proportion keeps the half-open count, so the maximum of the actual dataset is in no
  group. On 1 to 10 in two groups the actual proportions are 1/2 and 2/5 and sum to
  9/10.
\<close>

theorem actual_proportions_miss_maximum:
  "psi_calculator (initial_object [1, 2, 3, 4, 5, 6, 7, 8, 9, 10] [1, 2, 3, 4, 5, 6, 7, 8, 9, 10] 2) =
     Inr ((initial_object [1, 2, 3, 4, 5, 6, 7, 8, 9, 10] [1, 2, 3, 4, 5, 6, 7, 8, 9, 10] 2)
          \<lparr> cut_points := Some [1, 11 / 2, 10],
            actual_groups := [1, 2, 2, 2, 2, 3, 3, 3, 3, 3],
            expected_groups := [1, 2, 2, 2, 2, 3, 3, 3, 3, 3],
            actual_percentages := [Fin (1 / 2), Fin (2 / 5)],
            expected_percentages := [Fin (1 / 2), Fin (1 / 2)],
            group_psi_values := [Fin 0, Fin (- (ln (4 / 5) / 10))],
            psi := Some (Fin (- (ln (4 / 5) / 10))) \<rparr>,
          Fin (- (ln (4 / 5) / 10)),
          [Fin 0, Fin (- (ln (4 / 5) / 10))]) \<and>
   np_sum [Fin (1 / 2), Fin (2 / 5)] = Fin (9 / 10)"
  using ex_first_call by (simp add: np_sum_def)

text \<open>
  The sum of the actual proportions in general. Whenever the quantile levels of the
  group count lie in [0, 1], are non-decreasing and end in 1, the actual proportions
  stored by the first call sum to the share of the samples below the maximum of the
  actual dataset, which is less than the whole dataset: no sample equal to the maximum
  is counted.
\<close>

theorem actual_proportions_sum:
  assumes "PSIAnalyzer_init actual_arg expected_arg group_arg = Inr s"
    and "actual s \<noteq> []"
    and "list_all (\<lambda>x. 0 \<le> x \<and> x \<le> 1) (quantile_levels (group_k s))"
    and "sorted (quantile_levels (group_k s))"
    and "last (quantile_levels (group_k s)) = 1"
  shows "\<exists>s' score gs. psi_calculator s = Inr (s', score, gs) \<and>
           np_sum (actual_percentages s') =
             Fin (real (length (filter (\<lambda>x. x < Max (set (actual s))) (actual s))) /
                  real (length (actual s))) \<and>
           length (filter (\<lambda>x. x < Max (set (actual s))) (actual s)) < length (actual s)"
proof -
  obtain g where g: "2 \<le> g"
    and s: "s = initial_object (container_values actual_arg) (container_values expected_arg) g"
    using assms(1) by (rule PSIAnalyzer_init_Inr)
  have k: "group_k s = g" by (simp add: s initial_object_def)
  have g1: "1 \<le> group_k s" and g0: "0 \<le> group_k s" using g k by simp_all
  let ?cps = "quantile_cuts (actual s) (group_k s)"
  have gc: "\<exists>s1. group_creator s = Inr s1"
    using group_creator_result [OF assms(2) g1 assms(3,4)] by blast
  then obtain s1 where gc1: "group_creator s = Inr s1" by blast
  obtain s' where r: "psi_calculator s = Inr (s', np_sum (group_psi_values s'), group_psi_values s')"
    and ap: "actual_percentages s' = map (actual_perc_of (actual s) ?cps) [0..<nat (group_k s)]"
    using first_call_of_init [OF assms(1) gc1] by blast
  have srt: "sorted ?cps" by (rule sorted_quantile_cuts [OF assms(2,3,4)])
  have len: "length ?cps = nat (group_k s) + 1"
    using g0 by (simp add: length_quantile_cuts nat_add_distrib)
  then have lt: "nat (group_k s) < length ?cps" by simp
  have ne: "?cps \<noteq> []" using len by auto
  have first: "?cps ! 0 = Min (set (actual s))"
    using hd_quantile_cuts [OF assms(2) g0] ne by (simp add: hd_conv_nth)
  have final: "?cps ! nat (group_k s) = Max (set (actual s))"
    using last_quantile_cuts [OF assms(2) g0 assms(5)] ne len by (simp add: last_conv_nth)
  have "np_sum (actual_percentages s') =
          Fin (real (count_half_open (actual s) (?cps ! 0) (?cps ! nat (group_k s))) /
               real (length (actual s)))"
    unfolding ap by (rule np_sum_actual_perc [OF assms(2) srt lt])
  then have "np_sum (actual_percentages s') =
          Fin (real (length (filter (\<lambda>x. x < Max (set (actual s))) (actual s))) /
               real (length (actual s)))"
    by (simp only: first final count_below_Max [OF assms(2)])
  then show ?thesis
    using r count_below_Max_less [OF assms(2)] by blast
qed

theorem actual_proportions_sum_witness:
  "PSIAnalyzer_init (PyList [1, 2, 3, 4, 5, 6, 7, 8, 9, 10]) (PyList [1, 2, 3, 4, 5, 6, 7, 8, 9, 10]) (PyInt 2) =
     Inr (initial_object [1, 2, 3, 4, 5, 6, 7, 8, 9, 10] [1, 2, 3, 4, 5, 6, 7, 8, 9, 10] 2) \<and>
   actual (initial_object [1, 2, 3, 4, 5, 6, 7, 8, 9, 10] [1, 2, 3, 4, 5, 6, 7, 8, 9, 10] 2) \<noteq> [] \<and>
   list_all (\<lambda>x. 0 \<le> x \<and> x \<le> 1) (quantile_levels (group_k (initial_object [1, 2, 3, 4, 5, 6, 7, 8, 9, 10] [1, 2, 3, 4, 5, 6, 7, 8, 9, 10] 2))) \<and>
   sorted (quantile_levels (group_k (initial_object [1, 2, 3, 4, 5, 6, 7, 8, 9, 10] [1, 2, 3, 4, 5, 6, 7, 8, 9, 10] 2))) \<and>
   last (quantile_levels (group_k (initial_object [1, 2, 3, 4, 5, 6, 7, 8, 9, 10] [1, 2, 3, 4, 5, 6, 7, 8, 9, 10] 2))) = 1 \<and>
   (\<exists>s' score gs. psi_calculator (initial_object [1, 2, 3, 4, 5, 6, 7, 8, 9, 10] [1, 2, 3, 4, 5, 6, 7, 8, 9, 10] 2) = Inr (s', score, gs) \<and>
      np_sum (actual_percentages s') = Fin (9 / 10))"
proof -
  have k: "group_k (initial_object [1, 2, 3, 4, 5, 6, 7, 8, 9, 10] [1, 2, 3, 4, 5, 6, 7, 8, 9, 10] 2) = 2"
    and a: "actual (initial_object [1, 2, 3, 4, 5, 6, 7, 8, 9, 10] [1, 2, 3, 4, 5, 6, 7, 8, 9, 10] 2) \<noteq> []"
    by (simp_all add: initial_object_def)
  have lv: "list_all (\<lambda>x. 0 \<le> x \<and> x \<le> 1) (quantile_levels (group_k (initial_object [1, 2, 3, 4, 5, 6, 7, 8, 9, 10] [1, 2, 3, 4, 5, 6, 7, 8, 9, 10] 2)))"
    "sorted (quantile_levels (group_k (initial_object [1, 2, 3, 4, 5, 6, 7, 8, 9, 10] [1, 2, 3, 4, 5, 6, 7, 8, 9, 10] 2)))"
    "last (quantile_levels (group_k (initial_object [1, 2, 3, 4, 5, 6, 7, 8, 9, 10] [1, 2, 3, 4, 5, 6, 7, 8, 9, 10] 2))) = 1"
    using levels_2_valid by (simp_all only: k)
  have m: "real (length (filter (\<lambda>x. x < Max (set (actual (initial_object [1, 2, 3, 4, 5, 6, 7, 8, 9, 10] [1, 2, 3, 4, 5, 6, 7, 8, 9, 10] 2))))
                  (actual (initial_object [1, 2, 3, 4, 5, 6, 7, 8, 9, 10] [1, 2, 3, 4, 5, 6, 7, 8, 9, 10] 2)))) /
           real (length (actual (initial_object [1, 2, 3, 4, 5, 6, 7, 8, 9, 10] [1, 2, 3, 4, 5, 6, 7, 8, 9, 10] 2))) = 9 / 10"
    by (simp add: initial_object_def)
  show ?thesis
    using actual_proportions_sum [OF ex_init a lv] ex_init a lv unfolding m by blast
qed

text \<open>
  Claim C3 states that a dataset scored against itself has psi 0, with the cut points
  1, 5.5 and 10 for 1 to 10 in two groups. The cut points are as stated; the returned
  psi is \<open>(2/5 - 1/2) * ln ((2/5) / (1/2))\<close>, which is at least 1/50: the sample 10 is
  counted for the expected proportion of the last group and not for the actual one.
\<close>

theorem self_comparison_not_zero:
  "psi_calculator (initial_object [1, 2, 3, 4, 5, 6, 7, 8, 9, 10] [1, 2, 3, 4, 5, 6, 7, 8, 9, 10] 2) =
     Inr ((initial_object [1, 2, 3, 4, 5, 6, 7, 8, 9, 10] [1, 2, 3, 4, 5, 6, 7, 8, 9, 10] 2)
          \<lparr> cut_points := Some [1, 11 / 2, 10],
            actual_groups := [1, 2, 2, 2, 2, 3, 3, 3, 3, 3],
            expected_groups := [1, 2, 2, 2, 2, 3, 3, 3, 3, 3],
            actual_percentages := [Fin (1 / 2), Fin (2 / 5)],
            expected_percentages := [Fin (1 / 2), Fin (1 / 2)],
            group_psi_values := [Fin 0, Fin (- (ln (4 / 5) / 10))],
            psi := Some (Fin (- (ln (4 / 5) / 10))) \<rparr>,
          Fin (- (ln (4 / 5) / 10)),
          [Fin 0, Fin (- (ln (4 / 5) / 10))]) \<and>
   1 / 50 \<le> - (ln (4 / 5 :: real) / 10)"
proof -
  have "ln (4 / 5 :: real) \<le> 4 / 5 - 1" by (rule ln_le_minus_one) simp
  then have "1 / 50 \<le> - (ln (4 / 5 :: real) / 10)" by simp
  then show ?thesis using ex_first_call by simp
qed

text \<open>
  Claim C4 states that a second call of \<^verbatim>\<open>_psi_calculator\<close> returns the values of
  the first. The method appends to the lists of the object and never empties them: on
  the object the first call leaves, the second call returns four contributions instead
  of two, and twice the psi.
\<close>

theorem second_call_accumulates:
  "psi_calculator (initial_object [1, 2, 3, 4, 5, 6, 7, 8, 9, 10] [1, 2, 3, 4, 5, 6, 7, 8, 9, 10] 2) =
     Inr ((initial_object [1, 2, 3, 4, 5, 6, 7, 8, 9, 10] [1, 2, 3, 4, 5, 6, 7, 8, 9, 10] 2)
          \<lparr> cut_points := Some [1, 11 / 2, 10],
            actual_groups := [1, 2, 2, 2, 2, 3, 3, 3, 3, 3],
            expected_groups := [1, 2, 2, 2, 2, 3, 3, 3, 3, 3],
            actual_percentages := [Fin (1 / 2), Fin (2 / 5)],
            expected_percentages := [Fin (1 / 2), Fin (1 / 2)],
            group_psi_values := [Fin 0, Fin (- (ln (4 / 5) / 10))],
            psi := Some (Fin (- (ln (4 / 5) / 10))) \<rparr>,
          Fin (- (ln (4 / 5) / 10)),
          [Fin 0, Fin (- (ln (4 / 5) / 10))]) \<and>
   psi_calculator
     ((initial_object [1, 2, 3, 4, 5, 6, 7, 8, 9, 10] [1, 2, 3, 4, 5, 6, 7, 8, 9, 10] 2)
          \<lparr> cut_points := Some [1, 11 / 2, 10],
            actual_groups := [1, 2, 2, 2, 2, 3, 3, 3, 3, 3],
            expected_groups := [1, 2, 2, 2, 2, 3, 3, 3, 3, 3],
            actual_percentages := [Fin (1 / 2), Fin (2 / 5)],
            expected_percentages := [Fin (1 / 2), Fin (1 / 2)],
            group_psi_values := [Fin 0, Fin (- (ln (4 / 5) / 10))],
            psi := Some (Fin (- (ln (4 / 5) / 10))) \<rparr>) =
     Inr ((initial_object [1, 2, 3, 4, 5, 6, 7, 8, 9, 10] [1, 2, 3, 4, 5, 6, 7, 8, 9, 10] 2)
          \<lparr> cut_points := Some [1, 11 / 2, 10],
            actual_groups := [1, 2, 2, 2, 2, 3, 3, 3, 3, 3],
            expected_groups := [1, 2, 2, 2, 2, 3, 3, 3, 3, 3],
            actual_percentages := [Fin (1 / 2), Fin (2 / 5), Fin (1 / 2), Fin (2 / 5)],
            expected_percentages := [Fin (1 / 2), Fin (1 / 2), Fin (1 / 2), Fin (1 / 2)],
            group_psi_values := [Fin 0, Fin (- (ln (4 / 5) / 10)), Fin 0, Fin (- (ln (4 / 5) / 10))],
            psi := Some (Fin (- (ln (4 / 5) / 5))) \<rparr>,
          Fin (- (ln (4 / 5) / 5)),
          [Fin 0, Fin (- (ln (4 / 5) / 10)), Fin 0, Fin (- (ln (4 / 5) / 10))])"
  using ex_first_call ex_second_call by simp

text \<open>
  The second call in general. On the object that the first call on a fresh object
  leaves, a second call returns as well: the contributions of the first call followed
  by the same contributions again, and the sum of all of them as psi.
\<close>

theorem second_call_appends:
  assumes "PSIAnalyzer_init actual_arg expected_arg group_arg = Inr s"
    and "psi_calculator s = Inr (s', score, gs)"
  shows "\<exists>s''. psi_calculator s' = Inr (s'', np_sum (gs @ gs), gs @ gs)"
proof -
  obtain g where g: "2 \<le> g"
    and s: "s = initial_object (container_values actual_arg) (container_values expected_arg) g"
    using assms(1) by (rule PSIAnalyzer_init_Inr)
  have fresh: "cut_points s = None" "0 \<le> group_k s"
    using g by (simp_all add: s initial_object_def)
  obtain s1 where gc: "group_creator s = Inr s1"
    using psi_calculator_Inr_group_creator [OF fresh(1) assms(2)] by blast
  note fr = first_call_frame [OF fresh(1) gc fresh(2) assms(2)]
  note sc = scored_of_init [OF assms(1,2)]
  have cp: "cut_points s' = Some (quantile_cuts (actual s) (group_k s))" using sc by simp
  have len: "length (quantile_cuts (actual s) (group_k s)) = nat (group_k s') + 1"
    using fresh(2) fr(3) by (simp add: length_quantile_cuts nat_add_distrib)
  have gs: "group_psi_values s' @
              map (group_psi_at (actual s') (expected s') (group_k s')
                     (quantile_cuts (actual s) (group_k s))) [0..<nat (group_k s')] = gs @ gs"
    using sc by (simp add: fr)
  show ?thesis
    unfolding psi_calculator_cached [OF cp len] gs by blast
qed


theorem second_call_appends_witness:
  "\<exists>s' score gs.
     PSIAnalyzer_init (PyList [1, 2, 3, 4, 5, 6, 7, 8, 9, 10]) (PyList [1, 2, 3, 4, 5, 6, 7, 8, 9, 10]) (PyInt 2) =
       Inr (initial_object [1, 2, 3, 4, 5, 6, 7, 8, 9, 10] [1, 2, 3, 4, 5, 6, 7, 8, 9, 10] 2) \<and>
     psi_calculator (initial_object [1, 2, 3, 4, 5, 6, 7, 8, 9, 10] [1, 2, 3, 4, 5, 6, 7, 8, 9, 10] 2) = Inr (s', score, gs) \<and>
     length gs = 2 \<and>
     (\<exists>s''. psi_calculator s' = Inr (s'', np_sum (gs @ gs), gs @ gs))"
proof -
  have "length [Fin 0, Fin (- (ln (4 / 5) / 10))] = 2" by simp
  then show ?thesis
    using second_call_appends [OF ex_init ex_first_call] ex_init ex_first_call by blast
qed

text \<open>
  Claim C5 states that an empty dataset raises an invalid-input error at construction
  or at the first computation. With the actual dataset [1, 2] and an empty expected
  dataset the constructor returns the object and \<^verbatim>\<open>_psi_calculator\<close> returns: the
  expected proportions are 0/0, and the psi is NaN.
\<close>

theorem empty_expected_counterexample:
  "PSIAnalyzer_init (PyList [1, 2]) (PyList []) (PyInt 2) = Inr (initial_object [1, 2] [] 2) \<and>
   psi_calculator (initial_object [1, 2] [] 2) =
     Inr ((initial_object [1, 2] [] 2)
          \<lparr> cut_points := Some [1, 3 / 2, 2],
            actual_groups := [1, 3],
            expected_groups := [],
            actual_percentages := [Fin (1 / 2), Fin 0],
            expected_percentages := [NaN, NaN],
            group_psi_values := [NaN, NaN],
            psi := Some NaN \<rparr>,
          NaN,
          [NaN, NaN])"
  using ex_empty_expected_call by (simp add: PSIAnalyzer_init_def)

text \<open>
  Claim C5, as the code has it. The constructor accepts an empty actual and an empty
  expected dataset (it checks the container types and the group count only). With a
  non-empty actual dataset, an empty expected dataset and a valid group count \<open>g\<close>,
  once \<^verbatim>\<open>group_creator\<close> has computed the cut points, the first computation raises
  nothing either: it divides by the length 0, every expected proportion and every
  contribution is NaN, and so is the psi returned.
\<close>

theorem empty_dataset_not_rejected:
  assumes "acts \<noteq> []" and "2 \<le> g"
    and "group_creator (initial_object acts [] g) = Inr s1"
  shows "PSIAnalyzer_init (PyList []) (PyList exps) (PyInt g) = Inr (initial_object [] exps g) \<and>
         PSIAnalyzer_init (PyList acts) (PyList []) (PyInt g) = Inr (initial_object acts [] g) \<and>
         (\<exists>s'. psi_calculator (initial_object acts [] g) = Inr (s', NaN, replicate (nat g) NaN) \<and>
               expected_percentages s' = replicate (nat g) NaN)"
proof -
  have gpos: "0 < nat g" using assms(2) by simp
  have init: "PSIAnalyzer_init (PyList acts) (PyList []) (PyInt g) = Inr (initial_object acts [] g)"
    and init': "PSIAnalyzer_init (PyList []) (PyList exps) (PyInt g) = Inr (initial_object [] exps g)"
    using assms(2) by (simp_all add: PSIAnalyzer_init_def)
  have fields: "actual (initial_object acts [] g) = acts" "expected (initial_object acts [] g) = []"
    "group_k (initial_object acts [] g) = g"
    by (simp_all add: initial_object_def)
  note ne = assms(1)
  obtain s' where r: "psi_calculator (initial_object acts [] g) =
                        Inr (s', np_sum (group_psi_values s'), group_psi_values s')"
    and ep: "expected_percentages s' = map (expected_perc_of [] g (quantile_cuts acts g)) [0..<nat g]"
    and gp: "group_psi_values s' = map (group_psi_at acts [] g (quantile_cuts acts g)) [0..<nat g]"
    using first_call_of_init [OF init assms(3)] unfolding fields by blast
  have ep': "expected_percentages s' = replicate (nat g) NaN"
    by (simp add: ep map_expected_perc_of_empty)
  have gp': "group_psi_values s' = replicate (nat g) NaN"
    by (simp add: gp map_group_psi_at_empty_expected [OF ne])
  have "psi_calculator (initial_object acts [] g) = Inr (s', NaN, replicate (nat g) NaN)"
    using r gpos by (simp add: gp' np_sum_replicate_NaN)
  then show ?thesis using init init' ep' by blast
qed

theorem empty_dataset_not_rejected_witness:
  "[1, 2] \<noteq> ([] :: real list) \<and> (2::int) \<le> 2 \<and>
   group_creator (initial_object [1, 2] [] 2) =
     Inr ((initial_object [1, 2] [] 2)
          \<lparr> cut_points := Some [1, 3 / 2, 2],
            actual_groups := [1, 3],
            expected_groups := [] \<rparr>) \<and>
   PSIAnalyzer_init (PyList []) (PyList [1, 2]) (PyInt 2) = Inr (initial_object [] [1, 2] 2) \<and>
   PSIAnalyzer_init (PyList [1, 2]) (PyList []) (PyInt 2) = Inr (initial_object [1, 2] [] 2) \<and>
   (\<exists>s'. psi_calculator (initial_object [1, 2] [] 2) = Inr (s', NaN, [NaN, NaN]) \<and>
         expected_percentages s' = [NaN, NaN])"
proof -
  have a: "[1, 2] \<noteq> ([] :: real list)" and g: "(2::int) \<le> 2" by simp_all
  show ?thesis
    using empty_dataset_not_rejected [OF a g ex_empty_expected_group_creator, of "[1, 2]"]
      ex_empty_expected_group_creator
    by (simp add: numeral_2_eq_2)
qed




text \<open>
  Claim C7. For every pair of non-empty datasets and every valid group count, once
  \<^verbatim>\<open>group_creator\<close> has computed the cut points, the first call of
  \<^verbatim>\<open>_psi_calculator\<close> returns, and the psi it returns and every contribution
  compare as non-negative (\<^verbatim>\<open>v >= 0\<close> holds: a non-negative real
  number or plus infinity, never NaN).
\<close>

theorem psi_nonnegative:
  assumes "PSIAnalyzer_init actual_arg expected_arg group_arg = Inr s"
    and "actual s \<noteq> []" and "expected s \<noteq> []"
    and "group_creator s = Inr s1"
  shows "\<exists>s' score gs. psi_calculator s = Inr (s', score, gs) \<and> np_nonneg score \<and> list_all np_nonneg gs"
proof -
  note ne = assms(2)
  obtain s' where r: "psi_calculator s = Inr (s', np_sum (group_psi_values s'), group_psi_values s')"
    and gp: "group_psi_values s' =
             map (group_psi_at (actual s) (expected s) (group_k s) (quantile_cuts (actual s) (group_k s)))
               [0..<nat (group_k s)]"
    using first_call_of_init [OF assms(1,4)] by blast
  have all: "list_all np_nonneg (group_psi_values s')"
    unfolding gp list_all_iff using group_psi_at_nonneg [OF ne assms(3)] by auto
  then have "np_nonneg (np_sum (group_psi_values s'))" by (rule np_sum_nonneg)
  then show ?thesis using r all by blast
qed

theorem psi_nonnegative_witness:
  "PSIAnalyzer_init (PyList [1, 2, 3, 4]) (PyList [2, 3, 4, 5]) (PyInt 2) =
     Inr (initial_object [1, 2, 3, 4] [2, 3, 4, 5] 2) \<and>
   actual (initial_object [1, 2, 3, 4] [2, 3, 4, 5] 2) \<noteq> [] \<and>
   expected (initial_object [1, 2, 3, 4] [2, 3, 4, 5] 2) \<noteq> [] \<and>
   (\<exists>s1. group_creator (initial_object [1, 2, 3, 4] [2, 3, 4, 5] 2) = Inr s1) \<and>
   (\<exists>s' score gs. psi_calculator (initial_object [1, 2, 3, 4] [2, 3, 4, 5] 2) = Inr (s', score, gs) \<and>
      np_nonneg score \<and> list_all np_nonneg gs)"
proof -
  have init: "PSIAnalyzer_init (PyList [1, 2, 3, 4]) (PyList [2, 3, 4, 5]) (PyInt 2) =
     Inr (initial_object [1, 2, 3, 4] [2, 3, 4, 5] 2)"
    by (simp add: PSIAnalyzer_init_def)
  have k: "group_k (initial_object [1, 2, 3, 4] [2, 3, 4, 5] 2) = 2"
    and a: "actual (initial_object [1, 2, 3, 4] [2, 3, 4, 5] 2) \<noteq> []"
    and e: "expected (initial_object [1, 2, 3, 4] [2, 3, 4, 5] 2) \<noteq> []"
    by (simp_all add: initial_object_def)
  have g: "1 \<le> group_k (initial_object [1, 2, 3, 4] [2, 3, 4, 5] 2)" by (simp add: k)
  have lv: "list_all (\<lambda>x. 0 \<le> x \<and> x \<le> 1) (quantile_levels (group_k (initial_object [1, 2, 3, 4] [2, 3, 4, 5] 2)))"
    "sorted (quantile_levels (group_k (initial_object [1, 2, 3, 4] [2, 3, 4, 5] 2)))"
    using levels_2_valid(1,2) by (simp_all only: k)
  obtain s1 where gc: "group_creator (initial_object [1, 2, 3, 4] [2, 3, 4, 5] 2) = Inr s1"
    using group_creator_result [OF a g lv] by blast
  show ?thesis using init a e gc psi_nonnegative [OF init a e gc] by blast
qed

text \<open>
  Claim C10. For non-empty datasets and a valid group count, once \<^verbatim>\<open>group_creator\<close>
  has computed the cut points, the first call of \<^verbatim>\<open>_psi_calculator\<close> returns; each of
  its \<open>k\<close> iterations stores an expected proportion that is a positive real number, and
  the contribution of each group is computed from the stored pair of proportions, so
  that the divisor of \<^verbatim>\<open>actual_perc / expected_perc\<close> is never zero.
\<close>

theorem expected_proportion_positive:
  assumes "PSIAnalyzer_init actual_arg expected_arg group_arg = Inr s"
    and "actual s \<noteq> []" and "expected s \<noteq> []"
    and "group_creator s = Inr s1"
  shows "\<exists>s' score gs. psi_calculator s = Inr (s', score, gs) \<and>
           length (expected_percentages s') = nat (group_k s) \<and>
           list_all np_positive (expected_percentages s') \<and>
           gs = map (\<lambda>(a, e). np_mul (np_sub a e) (np_log (np_div a e)))
                  (zip (actual_percentages s') (expected_percentages s'))"
proof -
  obtain s' where r: "psi_calculator s = Inr (s', np_sum (group_psi_values s'), group_psi_values s')"
    and ap: "actual_percentages s' =
             map (actual_perc_of (actual s) (quantile_cuts (actual s) (group_k s))) [0..<nat (group_k s)]"
    and ep: "expected_percentages s' =
             map (expected_perc_of (expected s) (group_k s) (quantile_cuts (actual s) (group_k s)))
               [0..<nat (group_k s)]"
    and gp: "group_psi_values s' =
             map (group_psi_at (actual s) (expected s) (group_k s) (quantile_cuts (actual s) (group_k s)))
               [0..<nat (group_k s)]"
    using first_call_of_init [OF assms(1,4)] by blast
  have len: "length (expected_percentages s') = nat (group_k s)" by (simp add: ep)
  have pos: "list_all np_positive (expected_percentages s')"
    unfolding ep list_all_iff using expected_perc_of_positive [OF assms(3)] by auto
  have zip: "group_psi_values s' =
               map (\<lambda>(a, e). np_mul (np_sub a e) (np_log (np_div a e)))
                 (zip (actual_percentages s') (expected_percentages s'))"
    unfolding ap ep gp
    by (simp add: zip_map_map zip_same_conv_map group_psi_at_def group_psi_of_def)
  show ?thesis using r len pos zip by blast
qed

theorem expected_proportion_positive_witness:
  "PSIAnalyzer_init (PyList [1, 2, 3, 4]) (PyList [10, 20]) (PyInt 2) =
     Inr (initial_object [1, 2, 3, 4] [10, 20] 2) \<and>
   actual (initial_object [1, 2, 3, 4] [10, 20] 2) \<noteq> [] \<and>
   expected (initial_object [1, 2, 3, 4] [10, 20] 2) \<noteq> [] \<and>
   (\<exists>s1. group_creator (initial_object [1, 2, 3, 4] [10, 20] 2) = Inr s1) \<and>
   (\<exists>s' score gs. psi_calculator (initial_object [1, 2, 3, 4] [10, 20] 2) = Inr (s', score, gs) \<and>
      length (expected_percentages s') = 2 \<and>
      list_all np_positive (expected_percentages s') \<and>
      gs = map (\<lambda>(a, e). np_mul (np_sub a e) (np_log (np_div a e)))
             (zip (actual_percentages s') (expected_percentages s')))"
proof -
  have init: "PSIAnalyzer_init (PyList [1, 2, 3, 4]) (PyList [10, 20]) (PyInt 2) =
     Inr (initial_object [1, 2, 3, 4] [10, 20] 2)"
    by (simp add: PSIAnalyzer_init_def)
  have k: "group_k (initial_object [1, 2, 3, 4] [10, 20] 2) = 2"
    and a: "actual (initial_object [1, 2, 3, 4] [10, 20] 2) \<noteq> []"
    and e: "expected (initial_object [1, 2, 3, 4] [10, 20] 2) \<noteq> []"
    by (simp_all add: initial_object_def)
  have g: "1 \<le> group_k (initial_object [1, 2, 3, 4] [10, 20] 2)" by (simp add: k)
  have n: "nat (group_k (initial_object [1, 2, 3, 4] [10, 20] 2)) = 2" by (simp add: k)
  have lv: "list_all (\<lambda>x. 0 \<le> x \<and> x \<le> 1) (quantile_levels (group_k (initial_object [1, 2, 3, 4] [10, 20] 2)))"
    "sorted (quantile_levels (group_k (initial_object [1, 2, 3, 4] [10, 20] 2)))"
    using levels_2_valid(1,2) by (simp_all only: k)
  obtain s1 where gc: "group_creator (initial_object [1, 2, 3, 4] [10, 20] 2) = Inr s1"
    using group_creator_result [OF a g lv] by blast
  show ?thesis using init a e gc expected_proportion_positive [OF init a e gc] unfolding n by blast
qed

end
